theory Spec2Isabelle
  imports Main
begin

section \<open>Host values\<close>

text \<open>
  The bridge of \<^verbatim>\<open>packages/boa/lib/index.js\<close> moves values between the host (JavaScript)
  and a foreign runtime (Python).  A host value is a primitive, a function or an object;
  functions and objects are references (an identity), the properties of an object live in
  the heap.  The numbers that occur in the bridge are indices, lengths and the sentinel
  \<open>-1\<close>, so a number is an integer here, or the positive infinity that a numeral too long
  for a double denotes.
\<close>

datatype jsval =
    Undefined
  | Null
  | Boolean bool
  | Number int
  | Infinity
  | String string
  | Symbol string
  | Function nat
  | Object nat

text \<open>A property key is a string or a symbol.\<close>

datatype pkey = StrKey string | SymKey string

record property =
  p_value :: jsval
  p_enumerable :: bool

text \<open>
  An object is the list of its own properties, in the order the host enumerates them.
  The heap is the list of the objects allocated so far; \<open>Object a\<close> refers to the object
  at position \<open>a\<close>, and a new object is put at the end.
\<close>

type_synonym object = "(pkey \<times> property) list"
type_synonym heap = "object list"

datatype exn =
    TypeError string
  | Thrown jsval

text \<open>The host's \<^verbatim>\<open>typeof\<close>.\<close>

fun typeof_js :: "jsval \<Rightarrow> string" where
  "typeof_js Undefined = ''undefined''"
| "typeof_js Null = ''object''"
| "typeof_js (Boolean b) = ''boolean''"
| "typeof_js (Number n) = ''number''"
| "typeof_js Infinity = ''number''"
| "typeof_js (String s) = ''string''"
| "typeof_js (Symbol s) = ''symbol''"
| "typeof_js (Function f) = ''function''"
| "typeof_js (Object a) = ''object''"

text \<open>The host's truthiness (\<^verbatim>\<open>!x\<close>, \<^verbatim>\<open>if (x)\<close>).\<close>

fun truthy :: "jsval \<Rightarrow> bool" where
  "truthy Undefined = False"
| "truthy Null = False"
| "truthy (Boolean b) = b"
| "truthy (Number n) = (n \<noteq> 0)"
| "truthy Infinity = True"
| "truthy (String s) = (s \<noteq> [])"
| "truthy (Symbol s) = True"
| "truthy (Function f) = True"
| "truthy (Object a) = True"

section \<open>The keyword-arguments marker\<close>

text \<open>
  \<^verbatim>\<open>target[k] = v\<close> on a plain object: an existing property keeps its place and its
  attributes, a new one is added at the end, enumerable.
\<close>

fun put :: "pkey \<Rightarrow> jsval \<Rightarrow> object \<Rightarrow> object" where
  "put k v [] = [(k, \<lparr>p_value = v, p_enumerable = True\<rparr>)]"
| "put k v ((k', p) # ps) =
     (if k' = k then (k', p\<lparr>p_value := v\<rparr>) # ps else (k', p) # put k v ps)"

text \<open>
  The own enumerable properties an \<^verbatim>\<open>Object.assign\<close> source contributes: none for
  \<^verbatim>\<open>null\<close> and \<^verbatim>\<open>undefined\<close>, the enumerable ones of an object.  (The other primitives are
  never a source here: \<^verbatim>\<open>kwargs\<close> has refused them.)
\<close>

fun own_enumerable :: "heap \<Rightarrow> jsval \<Rightarrow> (pkey \<times> jsval) list" where
  "own_enumerable hp (Object a) =
     (if a < length hp
      then map (\<lambda>(k, p). (k, p_value p)) (filter (\<lambda>(k, p). p_enumerable p) (hp ! a))
      else [])"
| "own_enumerable hp v = []"

fun assign :: "object \<Rightarrow> (pkey \<times> jsval) list \<Rightarrow> object" where
  "assign tgt [] = tgt"
| "assign tgt ((k, v) # kvs) = assign (put k v tgt) kvs"

text \<open>
  \<^verbatim>\<open>kwargs\<close> (lines 420--427).  The tag's name, \<^verbatim>\<open>native.NODE_PYTHON_KWARGS_NAME\<close>, is a
  constant of the native binding: the parameter \<open>tag\<close>.
  \<^verbatim>\<open>Object.assign({}, input, {[tag]: true})\<close> allocates the empty object, copies the input's
  own enumerable properties and then the tag.
\<close>

definition kwargs :: "pkey \<Rightarrow> heap \<Rightarrow> jsval \<Rightarrow> (exn + jsval) \<times> heap" where
  "kwargs tag hp input =
     (if typeof_js input \<noteq> ''object''
      then (Inl (TypeError ''input must be a string.''), hp)
      else
        (let obj = assign (assign [] (own_enumerable hp input)) [(tag, Boolean True)]
         in (Inr (Object (length hp)), hp @ [obj])))"

text \<open>Reading an own property.\<close>

definition own_property :: "object \<Rightarrow> pkey \<Rightarrow> jsval option" where
  "own_property obj k = map_option p_value (map_of obj k)"

section \<open>The foreign runtime\<close>

text \<open>
  A foreign object is known to the host by its handle.  The native binding
  (\<^verbatim>\<open>require('bindings')('boa')\<close>) returns host primitives and handle objects.
\<close>

type_synonym handle = nat

datatype natval = Val jsval | Ref handle

text \<open>
  What the bridge passes to the native binding: a host value, or the marker object
  \<^verbatim>\<open>asHandleObject(T)\<close> (lines 87--92), which carries \<open>T\<close> under the handle tag.
\<close>

datatype arg = Arg jsval | HandleObj natval

text \<open>The operations of a handle that the bridge calls, and those of the interpreter.\<close>

datatype call =
    GetItem handle arg
  | SetItem handle arg arg
  | HasAttr handle string
  | GetAttr handle string
  | SetAttr handle arg arg
  | Invoke handle "arg list"
  | ToString handle
  | ToPrimitive handle
  | IsCallable handle
  | IsIterator handle
  | IsSequence handle
  | Next handle
  | Import string
  | Eval string natval natval

text \<open>
  The native binding is not among the sources, so the runtime is a parameter of the
  bridge.  It answers each operation with a raised exception (\<open>Inl\<close>) or a result of the
  operation's kind: a host primitive for \<^verbatim>\<open>toPrimitive\<close>, a string for \<^verbatim>\<open>toString\<close>, a
  boolean for the probes and for \<^verbatim>\<open>__hasattr__\<close>, \<^verbatim>\<open>done\<close> and \<^verbatim>\<open>value\<close> for \<^verbatim>\<open>next\<close>, the
  sentinel code for \<^verbatim>\<open>__setattr__\<close> and \<^verbatim>\<open>__setitem__\<close>.  An answer may depend on every
  call made before (the log), so the foreign objects may change as the program runs.
\<close>

record runtime =
  r_getitem :: "call list \<Rightarrow> handle \<Rightarrow> arg \<Rightarrow> jsval + natval"
  r_setitem :: "call list \<Rightarrow> handle \<Rightarrow> arg \<Rightarrow> arg \<Rightarrow> jsval + int"
  r_hasattr :: "call list \<Rightarrow> handle \<Rightarrow> string \<Rightarrow> jsval + bool"
  r_getattr :: "call list \<Rightarrow> handle \<Rightarrow> string \<Rightarrow> jsval + natval"
  r_setattr :: "call list \<Rightarrow> handle \<Rightarrow> arg \<Rightarrow> arg \<Rightarrow> jsval + int"
  r_invoke :: "call list \<Rightarrow> handle \<Rightarrow> arg list \<Rightarrow> jsval + natval"
  r_tostring :: "call list \<Rightarrow> handle \<Rightarrow> jsval + string"
  r_toprimitive :: "call list \<Rightarrow> handle \<Rightarrow> jsval + jsval"
  r_iscallable :: "call list \<Rightarrow> handle \<Rightarrow> jsval + bool"
  r_isiterator :: "call list \<Rightarrow> handle \<Rightarrow> jsval + bool"
  r_issequence :: "call list \<Rightarrow> handle \<Rightarrow> jsval + bool"
  r_next :: "call list \<Rightarrow> handle \<Rightarrow> jsval + (bool \<times> natval)"
  r_import :: "call list \<Rightarrow> string \<Rightarrow> jsval + natval"
  r_eval :: "call list \<Rightarrow> string \<Rightarrow> natval \<Rightarrow> natval \<Rightarrow> jsval + natval"

text \<open>
  A computation of the bridge takes the log of the native calls made so far and returns
  its result, or the exception it throws, with the log extended by the calls it made.
\<close>

type_synonym 'a bridge = "call list \<Rightarrow> (exn + 'a) \<times> call list"

definition ret :: "'a \<Rightarrow> 'a bridge" where
  "ret x log = (Inr x, log)"

definition throw :: "exn \<Rightarrow> 'a bridge" where
  "throw e log = (Inl e, log)"

definition bnd :: "'a bridge \<Rightarrow> ('a \<Rightarrow> 'b bridge) \<Rightarrow> 'b bridge" where
  "bnd m f log =
     (case m log of
        (Inl e, log') \<Rightarrow> (Inl e, log')
      | (Inr x, log') \<Rightarrow> f x log')"

text \<open>A native call: the runtime answers on the log so far, and the call is logged.\<close>

definition native :: "(call list \<Rightarrow> jsval + 'a) \<Rightarrow> call \<Rightarrow> 'a bridge" where
  "native answer c log =
     (case answer log of
        Inl e \<Rightarrow> (Inl (Thrown e), log @ [c])
      | Inr x \<Rightarrow> (Inr x, log @ [c]))"

text \<open>
  \<^verbatim>\<open>T.m(...)\<close> where \<open>T\<close> came from the native binding: a handle object has the method;
  on \<^verbatim>\<open>null\<close>, \<^verbatim>\<open>undefined\<close> or another primitive the host throws a type error.
\<close>

definition on_handle :: "natval \<Rightarrow> (handle \<Rightarrow> 'a bridge) \<Rightarrow> 'a bridge" where
  "on_handle T f =
     (case T of
        Ref h \<Rightarrow> f h
      | Val v \<Rightarrow> throw (TypeError ''not a handle''))"

definition py_getitem :: "runtime \<Rightarrow> handle \<Rightarrow> arg \<Rightarrow> natval bridge" where
  "py_getitem rt h k = native (\<lambda>log. r_getitem rt log h k) (GetItem h k)"

definition py_setitem :: "runtime \<Rightarrow> handle \<Rightarrow> arg \<Rightarrow> arg \<Rightarrow> int bridge" where
  "py_setitem rt h k v = native (\<lambda>log. r_setitem rt log h k v) (SetItem h k v)"

definition py_hasattr :: "runtime \<Rightarrow> handle \<Rightarrow> string \<Rightarrow> bool bridge" where
  "py_hasattr rt h n = native (\<lambda>log. r_hasattr rt log h n) (HasAttr h n)"

definition py_getattr :: "runtime \<Rightarrow> handle \<Rightarrow> string \<Rightarrow> natval bridge" where
  "py_getattr rt h n = native (\<lambda>log. r_getattr rt log h n) (GetAttr h n)"

definition py_setattr :: "runtime \<Rightarrow> handle \<Rightarrow> arg \<Rightarrow> arg \<Rightarrow> int bridge" where
  "py_setattr rt h n v = native (\<lambda>log. r_setattr rt log h n v) (SetAttr h n v)"

definition py_invoke :: "runtime \<Rightarrow> handle \<Rightarrow> arg list \<Rightarrow> natval bridge" where
  "py_invoke rt h as = native (\<lambda>log. r_invoke rt log h as) (Invoke h as)"

definition py_tostring :: "runtime \<Rightarrow> handle \<Rightarrow> string bridge" where
  "py_tostring rt h = native (\<lambda>log. r_tostring rt log h) (ToString h)"

definition py_toprimitive :: "runtime \<Rightarrow> handle \<Rightarrow> jsval bridge" where
  "py_toprimitive rt h = native (\<lambda>log. r_toprimitive rt log h) (ToPrimitive h)"

definition py_iscallable :: "runtime \<Rightarrow> handle \<Rightarrow> bool bridge" where
  "py_iscallable rt h = native (\<lambda>log. r_iscallable rt log h) (IsCallable h)"

definition py_isiterator :: "runtime \<Rightarrow> handle \<Rightarrow> bool bridge" where
  "py_isiterator rt h = native (\<lambda>log. r_isiterator rt log h) (IsIterator h)"

definition py_issequence :: "runtime \<Rightarrow> handle \<Rightarrow> bool bridge" where
  "py_issequence rt h = native (\<lambda>log. r_issequence rt log h) (IsSequence h)"

definition py_next :: "runtime \<Rightarrow> handle \<Rightarrow> (bool \<times> natval) bridge" where
  "py_next rt h = native (\<lambda>log. r_next rt log h) (Next h)"

definition py_import :: "runtime \<Rightarrow> string \<Rightarrow> natval bridge" where
  "py_import rt m = native (\<lambda>log. r_import rt log m) (Import m)"

definition py_eval :: "runtime \<Rightarrow> string \<Rightarrow> natval \<Rightarrow> natval \<Rightarrow> natval bridge" where
  "py_eval rt src g l = native (\<lambda>log. r_eval rt log src g l) (Eval src g l)"

section \<open>Type identity and delegators\<close>

text \<open>
  The bridge's environment: the handles of the foreign builtins and of the shared global
  namespace (lines 14--15), the delegators that \<^verbatim>\<open>DelegatorLoader.load()\<close> returned
  (line 16; the loader is not among the sources, so its table is a parameter), what each
  factory of the table makes (\<open>produce\<close>), and the two property names that are constants of the
  native binding, \<^verbatim>\<open>NODE_PYTHON_HANDLE_NAME\<close> and \<^verbatim>\<open>NODE_PYTHON_JS_DISPATCH\<close>.

  The table is an object whose own properties are factory functions (such as \<^verbatim>\<open>callee\<close>
  and \<^verbatim>\<open>default\<close>), or objects of members, one for each foreign module.  What a read of a
  property finds is a function, known by its identity, a value that is no function, or an
  accessor whose getter throws.  A read that finds no own property goes on to the
  prototype: \<^verbatim>\<open>Object.prototype\<close> for the table and for a group, and for a function its own
  members and those of \<^verbatim>\<open>Function.prototype\<close> first.  These host objects are parameters
  too: \<open>object_prototype\<close> and \<open>function_members\<close>.

  The call \<^verbatim>\<open>fn(T, wrap)\<close> of the chosen function is host code that is not among the sources.
  \<open>rejects\<close> says when no proxy comes of it: the call throws, or it gives a value that
  \<^verbatim>\<open>Object.defineProperties\<close> refuses.

  \<open>parse_long\<close> is what the host's \<^verbatim>\<open>parseInt\<close> gives for a numeral of more than 20
  significant digits, which the language leaves to the implementation.
\<close>

datatype member = Callable nat | Unfit | Poisoned

datatype delegator =
    Factory nat
  | Group "(string \<times> member) list"

text \<open>
  The object a factory returns for a handle (\<^verbatim>\<open>fn(T, wrap)\<close>), as far as the proxy reads it:
  its own properties, the own properties of \<^verbatim>\<open>target.constructor.prototype\<close> (for an object
  literal or a class instance this is the object's direct prototype, and a property found
  there is what \<^verbatim>\<open>target[name]\<close> reads when the object has none of its own), and whether
  the object is a function, so that the proxy can be called.  The object has a
  constructor, and its own properties are ordinary ones (writable and configurable), as an
  object literal, a class or an assignment makes them.
\<close>

record target =
  t_own :: "(pkey \<times> jsval) list"
  t_proto :: "(pkey \<times> jsval) list"
  t_callable :: bool

record env =
  builtins :: handle
  globals :: handle
  delegators :: "(string \<times> delegator) list"
  produce :: "nat \<Rightarrow> handle \<Rightarrow> target"
  handle_name :: pkey
  dispatch_name :: pkey
  object_prototype :: "(string \<times> member) list"
  function_members :: "nat \<Rightarrow> (string \<times> member) list"
  rejects :: "nat \<Rightarrow> handle \<Rightarrow> exn option"
  parse_long :: "string \<Rightarrow> jsval"

text \<open>\<^verbatim>\<open>getTypeInfo\<close> (lines 18--24): six native calls.\<close>

definition getTypeInfo :: "runtime \<Rightarrow> env \<Rightarrow> natval \<Rightarrow> (string \<times> string) bridge" where
  "getTypeInfo rt E T =
     bnd (py_getitem rt (builtins E) (Arg (String ''type''))) (\<lambda>ty.
     bnd (on_handle ty (\<lambda>t. py_invoke rt t [HandleObj T])) (\<lambda>typeo.
     bnd (on_handle typeo (\<lambda>t. py_getattr rt t ''__module__'')) (\<lambda>m.
     bnd (on_handle m (py_tostring rt)) (\<lambda>module.
     bnd (on_handle typeo (\<lambda>t. py_getattr rt t ''__name__'')) (\<lambda>n.
     bnd (on_handle n (py_tostring rt)) (\<lambda>name.
     ret (module, name)))))))"

text \<open>
  A read of the property \<open>name\<close> where the own properties are \<open>own\<close> and the rest of the
  prototype chain holds \<open>inherited\<close>: the value found (\<open>None\<close> is the host's
  \<^verbatim>\<open>undefined\<close>), or the type error of a getter that throws.
\<close>

definition read_property ::
  "(string \<times> member) list \<Rightarrow> (string \<times> member) list \<Rightarrow> string \<Rightarrow> exn + member option" where
  "read_property own inherited name =
     (case map_of (own @ inherited) name of
        None \<Rightarrow> Inr None
      | Some Poisoned \<Rightarrow> Inl (TypeError ''restricted property'')
      | Some m \<Rightarrow> Inr (Some m))"

text \<open>The own properties of a value of the table, as a read sees them.\<close>

fun members_of :: "env \<Rightarrow> delegator \<Rightarrow> (string \<times> member) list" where
  "members_of E (Group members) = members"
| "members_of E (Factory f) = function_members E f"

fun as_member :: "delegator \<Rightarrow> member" where
  "as_member (Factory f) = Callable f"
| "as_member (Group members) = Unfit"

text \<open>
  \<^verbatim>\<open>getDelegator\<close> (lines 32--41).  Its argument is a string or a type identity.  Only
  the module is looked up with \<^verbatim>\<open>hasOwnProperty\<close>; \<^verbatim>\<open>delegators[type]\<close> and
  \<^verbatim>\<open>delegators[module][name]\<close> are plain reads, which go up the prototype chain.
\<close>

datatype dkey = Literal string | TypeId string string

fun getDelegator :: "env \<Rightarrow> dkey \<Rightarrow> exn + member option" where
  "getDelegator E (Literal type) =
     read_property (map (\<lambda>(k, d). (k, as_member d)) (delegators E)) (object_prototype E) type"
| "getDelegator E (TypeId module name) =
     (case map_of (delegators E) module of
        Some d \<Rightarrow> read_property (members_of E d) (object_prototype E) name
      | None \<Rightarrow> Inr None)"

text \<open>\<^verbatim>\<open>typeof fn === 'function'\<close>\<close>

fun is_function :: "member option \<Rightarrow> bool" where
  "is_function (Some (Callable f)) = True"
| "is_function d = False"

section \<open>The wrap engine\<close>

text \<open>
  What \<^verbatim>\<open>wrap\<close> returns: a value the native binding produced, returned as it is, or a
  proxy.  A proxy is known by the handle it holds and the function that made the object
  it is built on (\<^verbatim>\<open>_internalWrap(T, fn(T, wrap))\<close>).
\<close>

datatype wrapped = Plain natval | Proxy handle nat

definition primitive_names :: "string list" where
  "primitive_names = [''int'', ''int64'', ''float'', ''float64'', ''bool'', ''str'']"

text \<open>
  The delegator that \<^verbatim>\<open>wrap\<close> chooses (lines 77--80), before it is called.
\<close>

definition choose_delegator :: "env \<Rightarrow> bool \<Rightarrow> string \<times> string \<Rightarrow> exn + member option" where
  "choose_delegator E callable type =
     (case getDelegator E (if callable then Literal ''callee''
                           else TypeId (fst type) (snd type)) of
        Inl e \<Rightarrow> Inl e
      | Inr fn \<Rightarrow> if \<not> is_function fn then getDelegator E (Literal ''default'') else Inr fn)"

text \<open>
  \<^verbatim>\<open>wrap\<close> (lines 48--85).  Calling a chosen delegator that is not a function throws a type
  error.  The write of the proxy to \<^verbatim>\<open>T[native.NODE_PYTHON_WRAPPED_NAME]\<close> is a property of
  the host's handle object that nothing reads; it makes no native call.
\<close>

definition wrap :: "runtime \<Rightarrow> env \<Rightarrow> natval \<Rightarrow> wrapped bridge" where
  "wrap rt E T =
     (if T = Val Null \<or> T = Val Undefined then ret (Plain T)
      else
        bnd (getTypeInfo rt E T) (\<lambda>type.
        if fst type = ''builtins'' \<and> snd type = ''NoneType'' then ret (Plain (Val Null))
        else if snd type \<in> set primitive_names
        then bnd (on_handle T (py_toprimitive rt)) (\<lambda>v. ret (Plain (Val v)))
        else
          bnd (on_handle T (py_iscallable rt)) (\<lambda>callable.
          case choose_delegator E callable type of
            Inl e \<Rightarrow> throw e
          | Inr (Some (Callable fn)) \<Rightarrow>
              on_handle T (\<lambda>h.
                case rejects E fn h of
                  Some e \<Rightarrow> throw e
                | None \<Rightarrow> ret (Proxy h fn))
          | Inr other \<Rightarrow> throw (TypeError ''fn is not a function''))))"

fun is_proxy :: "wrapped \<Rightarrow> bool" where
  "is_proxy (Proxy h fn) = True"
| "is_proxy (Plain v) = False"

section \<open>The proxy dispatch layer\<close>

text \<open>
  \<^verbatim>\<open>_internalWrap\<close> (lines 101--395) defines a fixed set of properties on the factory's
  object, each a function but the handle itself, and wraps the object in a proxy.
\<close>

datatype capability =
    Dispatch | InvokeArgs | ToStr | Slice | Inspect | ToPrim | Iterator
  | Hash | HasAttribute | GetAttribute | GetItemOf | SetAttribute | SetItemOf

datatype installed = TheHandle | Cap capability

text \<open>
  The property \<^verbatim>\<open>Object.defineProperties\<close> leaves under a key: in the descriptor object a
  later key replaces an equal earlier one, and the two computed names come first.
\<close>

definition installed_at :: "env \<Rightarrow> pkey \<Rightarrow> installed option" where
  "installed_at E k =
     (if k = StrKey ''__setitem__'' then Some (Cap SetItemOf)
      else if k = StrKey ''__setattr__'' then Some (Cap SetAttribute)
      else if k = StrKey ''__getitem__'' then Some (Cap GetItemOf)
      else if k = StrKey ''__getattr__'' then Some (Cap GetAttribute)
      else if k = StrKey ''__hasattr__'' then Some (Cap HasAttribute)
      else if k = StrKey ''__hash__'' then Some (Cap Hash)
      else if k = SymKey ''Symbol.iterator'' then Some (Cap Iterator)
      else if k = SymKey ''Symbol.toPrimitive'' then Some (Cap ToPrim)
      else if k = SymKey ''util.inspect.custom'' then Some (Cap Inspect)
      else if k = StrKey ''slice'' then Some (Cap Slice)
      else if k = StrKey ''toString'' then Some (Cap ToStr)
      else if k = StrKey ''invoke'' then Some (Cap InvokeArgs)
      else if k = dispatch_name E then Some (Cap Dispatch)
      else if k = handle_name E then Some TheHandle
      else None)"

text \<open>
  What a read of a member of a proxy gives: a foreign value, wrapped; the value of a
  property of the proxy's object that is no function; the handle; or a function of the
  object bound to the proxy (\<^verbatim>\<open>value.bind(newTarget)\<close>), which is a host function of the
  factory's or one of the installed ones.
\<close>

datatype got =
    Foreign wrapped
  | Value jsval
  | HandleOf handle
  | BoundHost nat handle nat
  | BoundCap capability handle nat

text \<open>
  The first step of the \<^verbatim>\<open>get\<close> trap (lines 319--334): the own properties of the object,
  the installed ones before the factory's, then those of \<^verbatim>\<open>constructor.prototype\<close>.
\<close>

definition bind_value :: "handle \<Rightarrow> nat \<Rightarrow> jsval \<Rightarrow> got" where
  "bind_value h fn v = (case v of Function f \<Rightarrow> BoundHost f h fn | _ \<Rightarrow> Value v)"

definition own_or_inherited :: "env \<Rightarrow> handle \<Rightarrow> nat \<Rightarrow> pkey \<Rightarrow> got option" where
  "own_or_inherited E h fn name =
     (case installed_at E name of
        Some TheHandle \<Rightarrow> Some (HandleOf h)
      | Some (Cap c) \<Rightarrow> Some (BoundCap c h fn)
      | None \<Rightarrow>
          (case map_of (t_own (produce E fn h)) name of
             Some v \<Rightarrow> Some (bind_value h fn v)
           | None \<Rightarrow>
               (case map_of (t_proto (produce E fn h)) name of
                  Some v \<Rightarrow> Some (bind_value h fn v)
                | None \<Rightarrow> None)))"

text \<open>\<^verbatim>\<open>/^[0-9]+$/.test(name)\<close> and \<^verbatim>\<open>parseInt(name, 10)\<close> on such a name.\<close>

definition is_digit :: "char \<Rightarrow> bool" where
  "is_digit c = (48 \<le> (of_char c :: nat) \<and> (of_char c :: nat) \<le> 57)"

definition is_index :: "string \<Rightarrow> bool" where
  "is_index name = (name \<noteq> [] \<and> list_all is_digit name)"

text \<open>
  The number that a string of decimal digits denotes, and its significant digits.
\<close>

definition decimal :: "string \<Rightarrow> nat" where
  "decimal name = foldl (\<lambda>n c. 10 * n + (of_char c - 48)) 0 name"

definition significant :: "string \<Rightarrow> string" where
  "significant name = dropWhile (\<lambda>c. c = CHR ''0'') name"

text \<open>
  The host's numbers are doubles.  The double of a natural number \<open>n\<close> below \<open>2 ^ 1024\<close>:
  \<open>n\<close> itself when it has at most 53 bits, else \<open>n\<close> rounded to 53 leading bits, to the
  nearest and at a tie to the even one.
\<close>

fun bit_length :: "nat \<Rightarrow> nat" where
  "bit_length n = (if n = 0 then 0 else Suc (bit_length (n div 2)))"

declare bit_length.simps [simp del]

definition to_double :: "nat \<Rightarrow> nat" where
  "to_double n =
     (let e = bit_length n - 53; q = n div 2 ^ e; r = n mod 2 ^ e
      in if e = 0 then n
         else if 2 ^ e < 2 * r then (q + 1) * 2 ^ e
         else if 2 * r = 2 ^ e \<and> odd q then (q + 1) * 2 ^ e
         else q * 2 ^ e)"

text \<open>
  \<^verbatim>\<open>parseInt(name, 10)\<close> on a name of digits: the double of the number denoted, when the
  name has at most 20 significant digits (then the number is below \<open>2 ^ 1024\<close>); beyond
  that the implementation may round the numeral first.
\<close>

definition parseInt :: "env \<Rightarrow> string \<Rightarrow> jsval" where
  "parseInt E name =
     (if length (significant name) \<le> 20 then Number (int (to_double (decimal name)))
      else parse_long E name)"

fun key_value :: "pkey \<Rightarrow> jsval" where
  "key_value (StrKey s) = String s"
| "key_value (SymKey s) = Symbol s"

text \<open>
  \<^verbatim>\<open>try { ... } catch (e) { debug(`... ${e.message}`) }\<close> (lines 349--358): the calls made
  stay made; the \<^verbatim>\<open>catch\<close> block reads \<^verbatim>\<open>e.message\<close>, which throws a type error when the
  value thrown is \<^verbatim>\<open>null\<close> or \<^verbatim>\<open>undefined\<close>; otherwise the exception is dropped.
\<close>

fun has_message :: "exn \<Rightarrow> bool" where
  "has_message (Thrown Null) = False"
| "has_message (Thrown Undefined) = False"
| "has_message e = True"

definition try_catch :: "'a bridge \<Rightarrow> 'a \<Rightarrow> 'a bridge" where
  "try_catch m d log =
     (case m log of
        (Inl e, log') \<Rightarrow>
          if has_message e then (Inr d, log')
          else (Inl (TypeError ''Cannot read properties of undefined''), log')
      | (Inr x, log') \<Rightarrow> (Inr x, log'))"

text \<open>The last step of the \<^verbatim>\<open>get\<close> trap (lines 349--358).\<close>

definition get_item_or_undefined :: "runtime \<Rightarrow> env \<Rightarrow> handle \<Rightarrow> pkey \<Rightarrow> got bridge" where
  "get_item_or_undefined rt E h name =
     try_catch
       (bnd (py_getitem rt h (Arg (key_value name))) (\<lambda>r.
          if r \<noteq> Val Null \<and> r \<noteq> Val Undefined
          then bnd (wrap rt E r) (\<lambda>w. ret (Foreign w))
          else ret (Value Undefined)))
       (Value Undefined)"

text \<open>
  The \<^verbatim>\<open>get\<close> trap (lines 315--359) of the proxy of handle \<open>h\<close> made by factory \<open>fn\<close>: the
  handler function, as the host calls it.
\<close>

definition get_trap :: "runtime \<Rightarrow> env \<Rightarrow> handle \<Rightarrow> nat \<Rightarrow> pkey \<Rightarrow> got bridge" where
  "get_trap rt E h fn name =
     (case own_or_inherited E h fn name of
        Some g \<Rightarrow> ret g
      | None \<Rightarrow>
          (case name of
             StrKey s \<Rightarrow>
               if is_index s
               then bnd (py_getitem rt h (Arg (parseInt E s))) (\<lambda>r.
                    bnd (wrap rt E r) (\<lambda>w. ret (Foreign w)))
               else
                 bnd (py_hasattr rt h s) (\<lambda>has.
                 if has
                 then bnd (py_getattr rt h s) (\<lambda>r.
                      bnd (wrap rt E r) (\<lambda>w. ret (Foreign w)))
                 else get_item_or_undefined rt E h name)
           | SymKey s \<Rightarrow> get_item_or_undefined rt E h name))"

text \<open>The \<^verbatim>\<open>set\<close> trap (lines 360--374): the handler function.\<close>

definition set_trap :: "runtime \<Rightarrow> env \<Rightarrow> handle \<Rightarrow> pkey \<Rightarrow> jsval \<Rightarrow> bool bridge" where
  "set_trap rt E h name v =
     (let fallback =
            bnd (py_setitem rt h (Arg (key_value name)) (Arg v)) (\<lambda>r.
            if r = -1
            then bnd (py_setattr rt h (Arg (key_value name)) (Arg v)) (\<lambda>r. ret (r \<noteq> -1))
            else ret (r \<noteq> -1))
      in case name of
           StrKey s \<Rightarrow>
             if is_index s
             then bnd (py_setitem rt h (Arg (parseInt E s)) (Arg v)) (\<lambda>r. ret (r \<noteq> -1))
             else
               bnd (py_hasattr rt h s) (\<lambda>has.
               if has
               then bnd (py_setattr rt h (Arg (String s)) (Arg v)) (\<lambda>r. ret (r \<noteq> -1))
               else fallback)
         | SymKey s \<Rightarrow> fallback)"

text \<open>
  Two of the installed properties are neither writable nor configurable: the handle
  (lines 107--111) and \<^verbatim>\<open>invoke\<close> (lines 138--142), whose descriptors name no
  \<^verbatim>\<open>configurable\<close>; the descriptors of all the others say \<^verbatim>\<open>configurable: true\<close>.  (A
  property that the factory's object already had stays configurable.)
\<close>

definition frozen :: "env \<Rightarrow> handle \<Rightarrow> nat \<Rightarrow> pkey \<Rightarrow> bool" where
  "frozen E h fn name =
     ((installed_at E name = Some TheHandle \<or> installed_at E name = Some (Cap InvokeArgs))
      \<and> map_of (t_own (produce E fn h)) name = None)"

text \<open>
  A read \<^verbatim>\<open>proxy[name]\<close>: the host calls the \<^verbatim>\<open>get\<close> trap and then checks its result
  against the proxy's object.  For a property that is neither writable nor configurable
  the result must be the property's value, else the read throws a type error.  The handle
  is returned as it is; a function is returned bound, which is another value.
\<close>

definition proxy_get :: "runtime \<Rightarrow> env \<Rightarrow> handle \<Rightarrow> nat \<Rightarrow> pkey \<Rightarrow> got bridge" where
  "proxy_get rt E h fn name =
     bnd (get_trap rt E h fn name) (\<lambda>g.
     if frozen E h fn name \<and> g \<noteq> HandleOf h
     then throw (TypeError ''proxy get: inconsistent with a non-configurable property'')
     else ret g)"

text \<open>
  An assignment \<^verbatim>\<open>proxy[name] = v\<close>, as \<^verbatim>\<open>Reflect.set\<close> reports it: the host calls the
  \<^verbatim>\<open>set\<close> trap, and when the trap says true for a property that is neither writable nor
  configurable, whose value \<open>v\<close> is not (a host value is neither the handle nor the
  installed function), it throws a type error.
\<close>

definition proxy_set ::
  "runtime \<Rightarrow> env \<Rightarrow> handle \<Rightarrow> nat \<Rightarrow> pkey \<Rightarrow> jsval \<Rightarrow> bool bridge" where
  "proxy_set rt E h fn name v =
     bnd (set_trap rt E h name v) (\<lambda>ok.
     if ok \<and> frozen E h fn name
     then throw (TypeError ''proxy set: a non-writable, non-configurable property'')
     else ret ok)"

text \<open>The \<^verbatim>\<open>apply\<close> trap (lines 375--377).\<close>

definition apply_trap :: "runtime \<Rightarrow> env \<Rightarrow> handle \<Rightarrow> arg list \<Rightarrow> wrapped bridge" where
  "apply_trap rt E h args = bnd (py_invoke rt h args) (wrap rt E)"

text \<open>
  Calling what \<^verbatim>\<open>obj.__init__\<close> gave, with no argument.  A proxy is called through its
  \<^verbatim>\<open>apply\<close> trap when its object is a function.  A function of the factory's object is host
  code that is not among the sources: \<open>run\<close> says what it does.  Of the installed
  properties only the handle and the dispatcher can have a name that is a constant of the
  binding; the handle is no function, and the dispatcher applied to no function throws, as
  does a call of any other value.
\<close>

definition call_member ::
  "runtime \<Rightarrow> env \<Rightarrow> (nat \<Rightarrow> handle \<Rightarrow> unit bridge) \<Rightarrow> got \<Rightarrow> unit bridge" where
  "call_member rt E run g =
     (case g of
        Foreign (Proxy h fn) \<Rightarrow>
          if t_callable (produce E fn h)
          then bnd (apply_trap rt E h []) (\<lambda>r. ret ())
          else throw (TypeError ''not a function'')
      | BoundHost f h fn \<Rightarrow> run f h
      | _ \<Rightarrow> throw (TypeError ''not a function''))"

text \<open>
  \<^verbatim>\<open>Object.getOwnPropertyNames(newClass.prototype)\<close> gives the string keys, without
  \<^verbatim>\<open>'constructor'\<close> after the filter; \<^verbatim>\<open>forEach\<close> then calls \<^verbatim>\<open>obj.__setattr__\<close>, which on a
  proxy is the installed function \<^verbatim>\<open>(n, v) => T.__setattr__(n, v)\<close> (lines 292--297).
\<close>

fun declared_members :: "(pkey \<times> jsval) list \<Rightarrow> (string \<times> jsval) list" where
  "declared_members [] = []"
| "declared_members ((StrKey n, v) # ps) =
     (if n \<noteq> ''constructor'' then (n, v) # declared_members ps else declared_members ps)"
| "declared_members ((SymKey n, v) # ps) = declared_members ps"

fun register :: "runtime \<Rightarrow> handle \<Rightarrow> (string \<times> jsval) list \<Rightarrow> unit bridge" where
  "register rt h [] = ret ()"
| "register rt h ((n, v) # ms) =
     bnd (py_setattr rt h (Arg (String n)) (Arg v)) (\<lambda>r. register rt h ms)"

text \<open>
  The \<^verbatim>\<open>construct\<close> trap (lines 378--393); \<open>proto\<close> is the own properties of
  \<^verbatim>\<open>newClass.prototype\<close>.  When \<^verbatim>\<open>wrap\<close> gave no proxy, \<^verbatim>\<open>obj.__init__()\<close> throws:
  \<^verbatim>\<open>null\<close> has no members, and a primitive has no member of that name.
\<close>

definition construct_trap ::
  "runtime \<Rightarrow> env \<Rightarrow> (nat \<Rightarrow> handle \<Rightarrow> unit bridge) \<Rightarrow> handle \<Rightarrow> arg list \<Rightarrow>
     (pkey \<times> jsval) list \<Rightarrow> wrapped bridge" where
  "construct_trap rt E run h args proto =
     bnd (py_invoke rt h args) (\<lambda>r.
     bnd (wrap rt E r) (\<lambda>obj.
     case obj of
       Plain v \<Rightarrow> throw (TypeError ''obj.__init__ is not a function'')
     | Proxy h' fn \<Rightarrow>
         bnd (proxy_get rt E h' fn (StrKey ''__init__'')) (\<lambda>init.
         bnd (call_member rt E run init) (\<lambda>u.
         bnd (register rt h' (declared_members proto)) (\<lambda>u.
         ret obj)))))"

section \<open>The iterator adapter\<close>

text \<open>
  The object that \<^verbatim>\<open>[Symbol.iterator]()\<close> returns (lines 206--240): the adapter of a foreign
  iterator, or that of a sequence, whose cursor \<^verbatim>\<open>this[IterIdxForSeqSymbol]\<close> is not yet set
  (\<open>None\<close>) or a number.
\<close>

datatype iter = OfIterator | OfSequence "int option"

definition iterator :: "runtime \<Rightarrow> handle \<Rightarrow> iter bridge" where
  "iterator rt h =
     bnd (py_isiterator rt h) (\<lambda>it.
     if it then ret OfIterator
     else
       bnd (py_issequence rt h) (\<lambda>sq.
       if sq then ret (OfSequence None)
       else throw (TypeError ''object is not iteratable or sequence.'')))"

text \<open>
  The cursor that a call of \<^verbatim>\<open>next\<close> sets (lines 221--225), before it makes any native
  call: 0 when it was not a number, one more otherwise.
\<close>

fun next_index :: "int option \<Rightarrow> int" where
  "next_index None = 0"
| "next_index (Some i) = i + 1"

fun advance :: "iter \<Rightarrow> iter" where
  "advance OfIterator = OfIterator"
| "advance (OfSequence c) = OfSequence (Some (next_index c))"

text \<open>
  \<^verbatim>\<open>index >= lengthOfSeq\<close>.  The foreign \<^verbatim>\<open>len\<close> gives an integer, so the length is a number;
  of the conversions the host applies to another value, those of \<^verbatim>\<open>null\<close>, \<^verbatim>\<open>undefined\<close>
  and the booleans are written out, and any other value compares as not a number.
\<close>

fun at_least :: "int \<Rightarrow> jsval \<Rightarrow> bool" where
  "at_least i (Number n) = (i \<ge> n)"
| "at_least i Null = (i \<ge> 0)"
| "at_least i (Boolean b) = (i \<ge> (if b then 1 else 0))"
| "at_least i v = False"

text \<open>
  One call of \<^verbatim>\<open>next\<close>: the value of \<^verbatim>\<open>done\<close>, and the value produced.
\<close>

definition iter_next :: "runtime \<Rightarrow> env \<Rightarrow> handle \<Rightarrow> iter \<Rightarrow> (bool \<times> wrapped) bridge" where
  "iter_next rt E h it =
     (case it of
        OfIterator \<Rightarrow>
          bnd (py_next rt h) (\<lambda>curr.
          bnd (wrap rt E (snd curr)) (\<lambda>w. ret (fst curr, w)))
      | OfSequence c \<Rightarrow>
          bnd (py_getitem rt (builtins E) (Arg (String ''len''))) (\<lambda>len.
          bnd (on_handle len (\<lambda>l. py_invoke rt l [HandleObj (Ref h)])) (\<lambda>n.
          bnd (on_handle n (py_toprimitive rt)) (\<lambda>lengthOfSeq.
          if at_least (next_index c) lengthOfSeq then ret (True, Plain (Val Undefined))
          else
            bnd (py_getitem rt h (Arg (Number (next_index c)))) (\<lambda>r.
            bnd (wrap rt E r) (\<lambda>w. ret (False, w)))))))"

text \<open>
  The host's iteration (\<^verbatim>\<open>for ... of\<close>): it calls \<^verbatim>\<open>next\<close> until \<^verbatim>\<open>done\<close> and collects the
  values.  A foreign iterator need never be done, so the loop has fuel: the result says
  whether the iteration completed within it.
\<close>

fun iterate ::
  "nat \<Rightarrow> runtime \<Rightarrow> env \<Rightarrow> handle \<Rightarrow> iter \<Rightarrow> (wrapped list \<times> bool) bridge" where
  "iterate 0 rt E h it = ret ([], False)"
| "iterate (Suc k) rt E h it =
     bnd (iter_next rt E h it) (\<lambda>step.
     if fst step then ret ([], True)
     else bnd (iterate k rt E h (advance it)) (\<lambda>rest. ret (snd step # fst rest, snd rest)))"

section \<open>The context manager adapter\<close>

text \<open>
  \<^verbatim>\<open>with\<close> (lines 434--464) sees of its context whether \<^verbatim>\<open>__enter__\<close> and \<^verbatim>\<open>__exit__\<close> are
  functions, and what a call of each gives: a value, or a thrown one (\<open>Inl\<close>).  The
  arguments of \<^verbatim>\<open>__exit__\<close> are \<^verbatim>\<open>null\<close> or handle markers.  Of the callback it sees whether
  it is a function, and what awaiting its call gives.
\<close>

datatype exit_arg = ExitNull | ExitHandle jsval

record manager =
  has_enter :: bool
  has_exit :: bool
  c_enter :: "jsval + jsval"
  c_exit :: "exit_arg \<Rightarrow> exit_arg \<Rightarrow> exit_arg \<Rightarrow> jsval + jsval"

datatype callback = NotFunction jsval | Fn "jsval \<Rightarrow> jsval + jsval"

datatype scope_call = Enter | Exit exit_arg exit_arg exit_arg

text \<open>
  How \<^verbatim>\<open>with\<close> ends: it throws at once, or it returns a promise that is fulfilled or
  rejected.
\<close>

datatype outcome = Throws exn | Fulfilled | Rejected exn

text \<open>
  \<^verbatim>\<open>err.ptype\<close>: a read of a member of \<^verbatim>\<open>null\<close> or \<^verbatim>\<open>undefined\<close> throws; an object is read
  by its own properties (the binding sets the three members on the exception it raises); a
  primitive or a function has no such member.
\<close>

fun get_member :: "heap \<Rightarrow> jsval \<Rightarrow> string \<Rightarrow> exn + jsval" where
  "get_member hp Undefined n = Inl (TypeError ''Cannot read properties of undefined'')"
| "get_member hp Null n = Inl (TypeError ''Cannot read properties of null'')"
| "get_member hp (Object a) n =
     Inr (if a < length hp
          then (case own_property (hp ! a) (StrKey n) of Some v \<Rightarrow> v | None \<Rightarrow> Undefined)
          else Undefined)"
| "get_member hp v n = Inr Undefined"

definition exit_nulls :: scope_call where
  "exit_nulls = Exit ExitNull ExitNull ExitNull"

text \<open>
  The \<^verbatim>\<open>catch\<close> block (lines 449--457): the three markers are built before \<^verbatim>\<open>__exit__\<close> is
  called.
\<close>

definition on_exception :: "heap \<Rightarrow> manager \<Rightarrow> jsval \<Rightarrow> outcome \<times> scope_call list" where
  "on_exception hp ctx err =
     (case get_member hp err ''ptype'' of
        Inl e \<Rightarrow> (Rejected e, [])
      | Inr ptype \<Rightarrow>
     (case get_member hp err ''pvalue'' of
        Inl e \<Rightarrow> (Rejected e, [])
      | Inr pvalue \<Rightarrow>
     (case get_member hp err ''ptrace'' of
        Inl e \<Rightarrow> (Rejected e, [])
      | Inr ptrace \<Rightarrow>
     (case c_exit ctx (ExitHandle ptype) (ExitHandle pvalue) (ExitHandle ptrace) of
        Inl e \<Rightarrow>
          (Rejected (Thrown e), [Exit (ExitHandle ptype) (ExitHandle pvalue) (ExitHandle ptrace)])
      | Inr r \<Rightarrow>
          (if \<not> truthy r then Rejected (Thrown err) else Fulfilled,
           [Exit (ExitHandle ptype) (ExitHandle pvalue) (ExitHandle ptrace)])))))"

text \<open>
  \<^verbatim>\<open>with\<close>: its outcome, and the calls of \<^verbatim>\<open>__enter__\<close> and \<^verbatim>\<open>__exit__\<close> it made, in order.
\<close>

definition with_scope :: "heap \<Rightarrow> manager \<Rightarrow> callback \<Rightarrow> outcome \<times> scope_call list" where
  "with_scope hp ctx fn =
     (if \<not> has_enter ctx
      then (Throws (TypeError
              ''the context object must have the magic methods: `__enter__`, `__exit__`.''), [])
      else if \<not> has_exit ctx
      then (Throws (TypeError
              ''the context object must have the magic methods: `__enter__`, `__exit__`.''), [])
      else
        (case fn of
           NotFunction v \<Rightarrow>
             (case c_exit ctx ExitNull ExitNull ExitNull of
                Inl e \<Rightarrow> (Throws (Thrown e), [exit_nulls])
              | Inr r \<Rightarrow> (Throws (TypeError ''the `fn` must be a function.''), [exit_nulls]))
         | Fn f \<Rightarrow>
             (case (case c_enter ctx of Inl e \<Rightarrow> Inl e | Inr v \<Rightarrow> f v) of
                Inr r \<Rightarrow>
                  (case c_exit ctx ExitNull ExitNull ExitNull of
                     Inl e \<Rightarrow> (Rejected (Thrown e), [Enter, exit_nulls])
                   | Inr r' \<Rightarrow> (Fulfilled, [Enter, exit_nulls]))
              | Inl err \<Rightarrow>
                  (fst (on_exception hp ctx err), Enter # snd (on_exception hp ctx err)))))"

text \<open>How often \<^verbatim>\<open>__exit__\<close> was called.\<close>

fun is_exit :: "scope_call \<Rightarrow> bool" where
  "is_exit (Exit a b c) = True"
| "is_exit Enter = False"

definition exit_count :: "scope_call list \<Rightarrow> nat" where
  "exit_count cs = length (filter is_exit cs)"

section \<open>Multi-line evaluation\<close>













section \<open>A small foreign world\<close>

text \<open>
  A runtime to run the bridge on.  Its objects: the builtins (0) with \<^verbatim>\<open>type\<close> (2) and
  \<^verbatim>\<open>len\<close> (3); the global namespace (1); the module \<^verbatim>\<open>copy\<close> (4), its function \<^verbatim>\<open>copy\<close>
  (5) and the copy it returns (6); the integer 42 (10); \<^verbatim>\<open>None\<close> (11); the list of the
  integers 7, 8, 9 (12; its items are 20, 21, 22, its length is 30); a \<^verbatim>\<open>Point\<close> of the
  module \<^verbatim>\<open>app\<close> with the attribute \<^verbatim>\<open>x\<close> (13); the class (14), whose call gives the
  instance 15, whose \<^verbatim>\<open>__init__\<close> is the method 16; an instance of a class named
  \<^verbatim>\<open>toString\<close> of the module \<^verbatim>\<open>app\<close> (17); the class \<^verbatim>\<open>int\<close> (18), whose call gives 42.
  The type of the object \<open>h\<close> is the object \<open>100 + h\<close>, whose module and name are the
  objects \<open>200 + h\<close> and \<open>300 + h\<close>.
\<close>

definition demo_type :: "handle \<Rightarrow> string \<times> string" where
  "demo_type h =
     (if h = 11 then (''builtins'', ''NoneType'')
      else if h = 12 then (''builtins'', ''list'')
      else if h = 13 \<or> h = 15 then (''app'', ''Point'')
      else if h = 17 then (''app'', ''toString'')
      else if h = 14 \<or> h = 18 then (''builtins'', ''type'')
      else if h = 16 then (''builtins'', ''method'')
      else (''builtins'', ''int''))"

definition demo_getitem :: "handle \<Rightarrow> arg \<Rightarrow> jsval + natval" where
  "demo_getitem h k =
     (if h = 0 \<and> k = Arg (String ''type'') then Inr (Ref 2)
      else if h = 0 \<and> k = Arg (String ''len'') then Inr (Ref 3)
      else if h = 12 \<and> k = Arg (Number 0) then Inr (Ref 20)
      else if h = 12 \<and> k = Arg (Number 1) then Inr (Ref 21)
      else if h = 12 \<and> k = Arg (Number 2) then Inr (Ref 22)
      else Inl (String ''KeyError''))"

definition demo_getattr :: "handle \<Rightarrow> string \<Rightarrow> jsval + natval" where
  "demo_getattr h n =
     (if 100 \<le> h \<and> h < 200 \<and> n = ''__module__'' then Inr (Ref (h + 100))
      else if 100 \<le> h \<and> h < 200 \<and> n = ''__name__'' then Inr (Ref (h + 200))
      else if h = 13 \<and> n = ''x'' then Inr (Ref 10)
      else if h = 15 \<and> n = ''__init__'' then Inr (Ref 16)
      else if h = 4 \<and> n = ''copy'' then Inr (Ref 5)
      else Inl (String ''AttributeError''))"

definition demo_invoke :: "handle \<Rightarrow> arg list \<Rightarrow> jsval + natval" where
  "demo_invoke h as =
     (if h = 2 then (case as of [HandleObj (Ref t)] \<Rightarrow> Inr (Ref (100 + t))
                     | _ \<Rightarrow> Inl (String ''TypeError''))
      else if h = 3 \<and> as = [HandleObj (Ref 12)] then Inr (Ref 30)
      else if h = 5 then Inr (Ref 6)
      else if h = 14 then Inr (Ref 15)
      else if h = 16 then Inr (Ref 11)
      else if h = 18 then Inr (Ref 10)
      else Inl (String ''TypeError''))"

definition demo_tostring :: "handle \<Rightarrow> jsval + string" where
  "demo_tostring h =
     (if 200 \<le> h \<and> h < 300 then Inr (fst (demo_type (h - 200)))
      else if 300 \<le> h \<and> h < 400 then Inr (snd (demo_type (h - 300)))
      else Inr ''<object>'')"

definition demo_toprimitive :: "handle \<Rightarrow> jsval + jsval" where
  "demo_toprimitive h =
     (if h = 10 then Inr (Number 42)
      else if h = 20 then Inr (Number 7)
      else if h = 21 then Inr (Number 8)
      else if h = 22 then Inr (Number 9)
      else if h = 30 then Inr (Number 3)
      else Inr Undefined)"

definition demo_rt :: runtime where
  "demo_rt =
     \<lparr> r_getitem = (\<lambda>log. demo_getitem),
       r_setitem = (\<lambda>log h k v. Inr (if h = 12 \<or> h = 6 then 0 else -1)),
       r_hasattr = (\<lambda>log h n. Inr ((h = 13 \<and> n = ''x'') \<or> (h = 15 \<and> n = ''__init__''))),
       r_getattr = (\<lambda>log. demo_getattr),
       r_setattr = (\<lambda>log h n v. Inr 0),
       r_invoke = (\<lambda>log. demo_invoke),
       r_tostring = (\<lambda>log. demo_tostring),
       r_toprimitive = (\<lambda>log. demo_toprimitive),
       r_iscallable = (\<lambda>log h. Inr (h = 14 \<or> h = 16 \<or> h = 18)),
       r_isiterator = (\<lambda>log h. Inr False),
       r_issequence = (\<lambda>log h. Inr (h = 12)),
       r_next = (\<lambda>log h. Inr (True, Val Undefined)),
       r_import = (\<lambda>log m. if m = ''copy'' then Inr (Ref 4) else Inl (String ''ImportError'')),
       r_eval = (\<lambda>log src g l. Inr (Ref 11)) \<rparr>"

text \<open>
  The host of this world: \<^verbatim>\<open>Object.prototype\<close> with its functions (900 and up) and
  \<^verbatim>\<open>__proto__\<close>; a function with its \<^verbatim>\<open>length\<close> and \<^verbatim>\<open>name\<close>, the functions of
  \<^verbatim>\<open>Function.prototype\<close> (950 and up) and the two restricted accessors.  Called as a
  factory, \<^verbatim>\<open>Object\<close> (900) gives its argument back; every other of these functions throws,
  having no receiver, or gives a string.  A numeral of more than 20 digits is rounded as
  the shorter ones are, up to infinity.
\<close>

definition demo_object_prototype :: "(string \<times> member) list" where
  "demo_object_prototype =
     [(''constructor'', Callable 900), (''hasOwnProperty'', Callable 901),
      (''isPrototypeOf'', Callable 902), (''propertyIsEnumerable'', Callable 903),
      (''toLocaleString'', Callable 904), (''toString'', Callable 905),
      (''valueOf'', Callable 906), (''__defineGetter__'', Callable 907),
      (''__defineSetter__'', Callable 908), (''__lookupGetter__'', Callable 909),
      (''__lookupSetter__'', Callable 910), (''__proto__'', Unfit)]"

definition demo_function_members :: "(string \<times> member) list" where
  "demo_function_members =
     [(''length'', Unfit), (''name'', Unfit), (''apply'', Callable 950),
      (''bind'', Callable 951), (''call'', Callable 952), (''toString'', Callable 953),
      (''constructor'', Callable 954), (''caller'', Poisoned), (''arguments'', Poisoned)]"

definition demo_env :: env where
  "demo_env =
     \<lparr> builtins = 0,
       globals = 1,
       delegators =
         [(''callee'', Factory 1), (''default'', Factory 0),
          (''app'', Group [(''Point'', Callable 2)])],
       produce = (\<lambda>fn h.
         \<lparr> t_own = (if fn = 2 then [(StrKey ''norm'', Function 7), (StrKey ''label'', String ''pt'')]
                    else []),
           t_proto = [],
           t_callable = (fn = 1) \<rparr>),
       handle_name = StrKey ''handle'',
       dispatch_name = StrKey ''dispatch'',
       object_prototype = demo_object_prototype,
       function_members = (\<lambda>f. demo_function_members),
       rejects = (\<lambda>fn h. if 901 \<le> fn then Some (TypeError ''not a factory'') else None),
       parse_long = (\<lambda>name.
         if decimal name < 2 ^ 1024 then Number (int (to_double (decimal name)))
         else Infinity) \<rparr>"

text \<open>The six calls of \<^verbatim>\<open>getTypeInfo\<close> on the object \<open>h\<close> of this world.\<close>

definition type_calls :: "handle \<Rightarrow> call list" where
  "type_calls h =
     [GetItem 0 (Arg (String ''type'')), Invoke 2 [HandleObj (Ref h)],
      GetAttr (100 + h) ''__module__'', ToString (200 + h),
      GetAttr (100 + h) ''__name__'', ToString (300 + h)]"

text \<open>
  A context manager whose \<^verbatim>\<open>__enter__\<close> gives 1 and whose \<^verbatim>\<open>__exit__\<close> gives \<^verbatim>\<open>false\<close>.
\<close>

definition demo_manager :: manager where
  "demo_manager =
     \<lparr> has_enter = True, has_exit = True, c_enter = Inr (Number 1),
       c_exit = (\<lambda>a b c. Inr (Boolean False)) \<rparr>"

section \<open>Reading the log\<close>

text \<open>
  A computation appends calls that all satisfy \<open>P\<close>: it keeps the log it was given and adds
  such calls at its end.
\<close>

definition appends :: "(call \<Rightarrow> bool) \<Rightarrow> 'a bridge \<Rightarrow> bool" where
  "appends P m = (\<forall>log. \<exists>t. snd (m log) = log @ t \<and> list_all P t)"

text \<open>The native calls that \<^verbatim>\<open>wrap\<close> makes, given the handle of the builtins.\<close>

fun wrap_call :: "handle \<Rightarrow> call \<Rightarrow> bool" where
  "wrap_call b (GetItem h k) = (h = b \<and> k = Arg (String ''type''))"
| "wrap_call b (Invoke h as) = True"
| "wrap_call b (GetAttr h n) = True"
| "wrap_call b (ToString h) = True"
| "wrap_call b (ToPrimitive h) = True"
| "wrap_call b (IsCallable h) = True"
| "wrap_call b c = False"

text \<open>A call that mutates the foreign object \<open>g\<close>.\<close>

fun writes_to :: "handle \<Rightarrow> call \<Rightarrow> bool" where
  "writes_to g (SetItem h k v) = (h = g)"
| "writes_to g (SetAttr h n v) = (h = g)"
| "writes_to g c = False"



text \<open>
  The log holds an attribute-set that puts the host value \<open>v\<close> on the foreign object \<open>h\<close>.
\<close>

fun is_copy_of :: "handle \<Rightarrow> jsval \<Rightarrow> call \<Rightarrow> bool" where
  "is_copy_of h v (SetAttr h' n v') = (h' = h \<and> v' = Arg v)"
| "is_copy_of h v c = False"

definition copied :: "call list \<Rightarrow> handle \<Rightarrow> jsval \<Rightarrow> bool" where
  "copied log h v = list_ex (is_copy_of h v) log"


text \<open>
  The prototype of a host class that declares the methods \<^verbatim>\<open>area\<close> and \<^verbatim>\<open>perimeter\<close> and,
  between them, a method under the symbol \<^verbatim>\<open>Symbol.iterator\<close>.
\<close>

definition demo_class :: "(pkey \<times> jsval) list" where
  "demo_class =
     [(StrKey ''constructor'', Function 3), (StrKey ''area'', Function 4),
      (SymKey ''Symbol.iterator'', Function 5), (StrKey ''perimeter'', Function 6)]"





section \<open>Properties of the keyword-arguments marker\<close>


lemma own_property_put:
  "own_property (put k v obj) k' = (if k' = k then Some v else own_property obj k')"
  by (induction obj) (auto simp: own_property_def)


text \<open>
  Claim C9, as stated, fails: \<^verbatim>\<open>null\<close> is not an object, and \<^verbatim>\<open>kwargs(null)\<close> does not fail
  but returns a new object that carries the tag; a function is an object, and
  \<^verbatim>\<open>kwargs\<close> refuses it.
\<close>

theorem kwargs_null_counterexample:
  "kwargs (StrKey ''kw'') [] Null =
     (Inr (Object 0), [[(StrKey ''kw'', \<lparr>p_value = Boolean True, p_enumerable = True\<rparr>)]])
   \<and> kwargs (StrKey ''kw'') [] (Function 0) = (Inl (TypeError ''input must be a string.''), [])"
  by (simp add: kwargs_def)

text \<open>
  Claim C9, amended.  \<^verbatim>\<open>kwargs\<close> fails with a type error exactly on the inputs whose
  \<^verbatim>\<open>typeof\<close> is not \<^verbatim>\<open>'object'\<close>: on \<open>42\<close> and every other primitive but \<^verbatim>\<open>null\<close>, and on a
  function.  On the other inputs, which are \<^verbatim>\<open>null\<close> and the objects that are no
  functions, it returns an object of the heap that carries the keyword-arguments tag, set
  to true; for \<^verbatim>\<open>null\<close> this object holds the tag alone.
\<close>

theorem kwargs_type_error:
  "(typeof_js input \<noteq> ''object'' \<longrightarrow>
      kwargs tag hp input = (Inl (TypeError ''input must be a string.''), hp))
   \<and> (\<exists>msg. fst (kwargs tag hp (Number 42)) = Inl (TypeError msg))
   \<and> (\<exists>msg. fst (kwargs tag hp (Function f)) = Inl (TypeError msg))
   \<and> (typeof_js input = ''object'' \<longleftrightarrow> input = Null \<or> (\<exists>a. input = Object a))
   \<and> (typeof_js input = ''object'' \<longrightarrow>
        (\<exists>a. fst (kwargs tag hp input) = Inr (Object a)
           \<and> a < length (snd (kwargs tag hp input))
           \<and> own_property (snd (kwargs tag hp input) ! a) tag = Some (Boolean True)))
   \<and> kwargs tag hp Null =
        (Inr (Object (length hp)),
         hp @ [[(tag, \<lparr>p_value = Boolean True, p_enumerable = True\<rparr>)]])"
proof -
  have "typeof_js input = ''object'' \<longleftrightarrow> input = Null \<or> (\<exists>a. input = Object a)"
    by (cases input) simp_all
  then show ?thesis
    by (simp add: kwargs_def Let_def own_property_put)
qed

theorem kwargs_type_error_witness:
  "kwargs (StrKey ''kw'') [] (String ''a'') = (Inl (TypeError ''input must be a string.''), [])
   \<and> (\<exists>a. fst (kwargs (StrKey ''kw'')
               [[(StrKey ''x'', \<lparr>p_value = Number 1, p_enumerable = True\<rparr>)]] (Object 0))
            = Inr (Object a)
      \<and> a < length (snd (kwargs (StrKey ''kw'')
               [[(StrKey ''x'', \<lparr>p_value = Number 1, p_enumerable = True\<rparr>)]] (Object 0)))
      \<and> own_property (snd (kwargs (StrKey ''kw'')
               [[(StrKey ''x'', \<lparr>p_value = Number 1, p_enumerable = True\<rparr>)]] (Object 0)) ! a)
            (StrKey ''kw'') = Some (Boolean True))"
  using kwargs_type_error [of "String ''a''" "StrKey ''kw''" "[]"]
    kwargs_type_error [of "Object 0" "StrKey ''kw''"
      "[[(StrKey ''x'', \<lparr>p_value = Number 1, p_enumerable = True\<rparr>)]]"]
  by simp



section \<open>Properties of the wrap engine\<close>

lemma bnd_Inr: "m log = (Inr x, log') \<Longrightarrow> bnd m f log = f x log'"
  by (simp add: bnd_def)

lemma bnd_Inl: "m log = (Inl e, log') \<Longrightarrow> bnd m f log = (Inl e, log')"
  by (simp add: bnd_def)

lemma bnd_eq_Inr:
  "bnd m f log = (Inr y, log') \<longleftrightarrow>
     (\<exists>x mid. m log = (Inr x, mid) \<and> f x mid = (Inr y, log'))"
  by (cases "m log") (auto simp: bnd_def split: sum.splits)

lemma native_eq_Inr:
  "native a c log = (Inr x, log') \<longleftrightarrow> a log = Inr x \<and> log' = log @ [c]"
  by (auto simp: native_def split: sum.splits)

lemmas py_defs = py_getitem_def py_setitem_def py_hasattr_def py_getattr_def py_setattr_def
  py_invoke_def py_tostring_def py_toprimitive_def py_iscallable_def py_isiterator_def
  py_issequence_def py_next_def py_import_def py_eval_def

lemmas demo_defs = demo_rt_def demo_env_def demo_getitem_def demo_getattr_def demo_invoke_def
  demo_tostring_def demo_toprimitive_def

lemma demo_getTypeInfo:
  "h < 100 \<Longrightarrow>
   getTypeInfo demo_rt demo_env (Ref h) log = (Inr (demo_type h), log @ type_calls h)"
  by (simp add: getTypeInfo_def bnd_def ret_def on_handle_def native_def py_defs demo_defs
      type_calls_def)

text \<open>
  Claim C1.  \<^verbatim>\<open>wrap\<close> returns \<^verbatim>\<open>null\<close> and \<^verbatim>\<open>undefined\<close> as they are, with no native call.
  When the type identity of the input resolves to \<^verbatim>\<open>('builtins', 'NoneType')\<close>, the result
  is the host's \<^verbatim>\<open>null\<close>.  When the type name of a handle is one of the six primitive
  names, \<^verbatim>\<open>toPrimitive\<close> is the one further call, and what it gives (its value, or the
  exception it raises) is the result: never a proxy.
\<close>

theorem wrap_null_and_primitive:
  "wrap rt E (Val Null) log = (Inr (Plain (Val Null)), log)
   \<and> wrap rt E (Val Undefined) log = (Inr (Plain (Val Undefined)), log)
   \<and> (T \<noteq> Val Null \<and> T \<noteq> Val Undefined
        \<and> getTypeInfo rt E T log = (Inr (''builtins'', ''NoneType''), log')
      \<longrightarrow> wrap rt E T log = (Inr (Plain (Val Null)), log'))
   \<and> (getTypeInfo rt E (Ref h) log = (Inr (module, name), log')
        \<and> name \<in> {''int'', ''int64'', ''float'', ''float64'', ''bool'', ''str''}
      \<longrightarrow> wrap rt E (Ref h) log =
            (case r_toprimitive rt log' h of
               Inl e \<Rightarrow> (Inl (Thrown e), log' @ [ToPrimitive h])
             | Inr v \<Rightarrow> (Inr (Plain (Val v)), log' @ [ToPrimitive h]))
          \<and> (\<forall>w. fst (wrap rt E (Ref h) log) = Inr w \<longrightarrow> \<not> is_proxy w))"
  by (auto simp: wrap_def ret_def bnd_Inr on_handle_def py_toprimitive_def native_def
      primitive_names_def bnd_def split: sum.splits)

theorem wrap_null_and_primitive_witness:
  "wrap demo_rt demo_env (Ref 11) [] = (Inr (Plain (Val Null)), type_calls 11)
   \<and> wrap demo_rt demo_env (Ref 10) [] =
       (Inr (Plain (Val (Number 42))), type_calls 10 @ [ToPrimitive 10])"
proof -
  have a: "getTypeInfo demo_rt demo_env (Ref 11) [] =
      (Inr (''builtins'', ''NoneType''), type_calls 11)"
    by (simp add: demo_getTypeInfo demo_type_def)
  have b: "getTypeInfo demo_rt demo_env (Ref 10) [] = (Inr (''builtins'', ''int''), type_calls 10)"
    by (simp add: demo_getTypeInfo demo_type_def)
  have c: "r_toprimitive demo_rt (type_calls 10) 10 = Inr (Number 42)"
    by (simp add: demo_rt_def demo_toprimitive_def)
  from wrap_null_and_primitive [where rt = demo_rt and E = demo_env and log = "[]"
      and T = "Ref 11" and log' = "type_calls 11"] a
  have 1: "wrap demo_rt demo_env (Ref 11) [] = (Inr (Plain (Val Null)), type_calls 11)"
    by simp
  from wrap_null_and_primitive [where rt = demo_rt and E = demo_env and log = "[]"
      and h = 10 and log' = "type_calls 10" and module = "''builtins''" and name = "''int''"] b c
  have 2: "wrap demo_rt demo_env (Ref 10) [] =
       (Inr (Plain (Val (Number 42))), type_calls 10 @ [ToPrimitive 10])"
    by simp
  from 1 2 show ?thesis by simp
qed

lemma demo_wrap_int:
  assumes "h < 100" "demo_type h = (''builtins'', ''int'')" "demo_toprimitive h = Inr v"
  shows "wrap demo_rt demo_env (Ref h) log =
     (Inr (Plain (Val v)), log @ type_calls h @ [ToPrimitive h])"
  using assms
  by (simp add: wrap_def bnd_Inr [OF demo_getTypeInfo] primitive_names_def)
     (simp add: bnd_def on_handle_def py_toprimitive_def native_def demo_rt_def ret_def)

lemma demo_wrap_proxy:
  assumes "h < 100" "demo_type h = (m, n)" "(m, n) \<noteq> (''builtins'', ''NoneType'')"
    "n \<notin> set primitive_names"
    "choose_delegator demo_env (h = 14 \<or> h = 16 \<or> h = 18) (m, n) = Inr (Some (Callable fn))"
    "rejects demo_env fn h = None"
  shows "wrap demo_rt demo_env (Ref h) log =
     (Inr (Proxy h fn), log @ type_calls h @ [IsCallable h])"
  using assms
  by (simp add: wrap_def bnd_Inr [OF demo_getTypeInfo])
     (simp add: bnd_def on_handle_def py_iscallable_def native_def demo_rt_def ret_def)

lemma demo_wrap_none:
  "wrap demo_rt demo_env (Ref 11) log = (Inr (Plain (Val Null)), log @ type_calls 11)"
  by (simp add: wrap_def bnd_Inr [OF demo_getTypeInfo] demo_type_def ret_def)

lemma demo_choices:
  "choose_delegator demo_env False (''app'', ''Point'') = Inr (Some (Callable 2))"
  "choose_delegator demo_env True (''builtins'', ''method'') = Inr (Some (Callable 1))"
  "choose_delegator demo_env True (''builtins'', ''type'') = Inr (Some (Callable 1))"
  "choose_delegator demo_env False (''builtins'', ''list'') = Inr (Some (Callable 0))"
  by (simp_all add: choose_delegator_def demo_env_def read_property_def
      demo_object_prototype_def)

lemma demo_wrap_13:
  "wrap demo_rt demo_env (Ref 13) log = (Inr (Proxy 13 2), log @ type_calls 13 @ [IsCallable 13])"
  by (rule demo_wrap_proxy [where m = "''app''" and n = "''Point''"])
     (simp_all add: demo_type_def primitive_names_def demo_choices, simp add: demo_env_def)

lemma demo_wrap_15:
  "wrap demo_rt demo_env (Ref 15) log = (Inr (Proxy 15 2), log @ type_calls 15 @ [IsCallable 15])"
  by (rule demo_wrap_proxy [where m = "''app''" and n = "''Point''"])
     (simp_all add: demo_type_def primitive_names_def demo_choices, simp add: demo_env_def)

lemma demo_wrap_16:
  "wrap demo_rt demo_env (Ref 16) log = (Inr (Proxy 16 1), log @ type_calls 16 @ [IsCallable 16])"
  by (rule demo_wrap_proxy [where m = "''builtins''" and n = "''method''"])
     (simp_all add: demo_type_def primitive_names_def demo_choices, simp add: demo_env_def)

lemma demo_wrap_12:
  "wrap demo_rt demo_env (Ref 12) log = (Inr (Proxy 12 0), log @ type_calls 12 @ [IsCallable 12])"
  by (rule demo_wrap_proxy [where m = "''builtins''" and n = "''list''"])
     (simp_all add: demo_type_def primitive_names_def demo_choices, simp add: demo_env_def)

text \<open>
  The choice of the delegator in full.  For a handle that is neither \<^verbatim>\<open>None\<close> nor of a
  primitive name, \<^verbatim>\<open>wrap\<close> asks whether it is callable and then reads the table: the
  property \<^verbatim>\<open>callee\<close> for a callable handle, else the property \<open>name\<close> of the value under
  \<open>module\<close>, when the table has \<open>module\<close> of its own; and the property \<^verbatim>\<open>default\<close> when that
  read gave no function.  A function so found makes the proxy; anything else is a type
  error.
\<close>

lemma wrap_chooses:
  assumes "getTypeInfo rt E (Ref h) log = (Inr (module, name), mid)"
    and "\<not> (module = ''builtins'' \<and> name = ''NoneType'')"
    and "name \<notin> set primitive_names"
    and "r_iscallable rt mid h = Inr callable"
  shows "wrap rt E (Ref h) log =
     (case (case (if callable
                  then read_property (map (\<lambda>(k, d). (k, as_member d)) (delegators E))
                         (object_prototype E) ''callee''
                  else (case map_of (delegators E) module of
                          None \<Rightarrow> Inr None
                        | Some d \<Rightarrow> read_property (members_of E d) (object_prototype E) name)) of
              Inl e \<Rightarrow> Inl e
            | Inr (Some (Callable f)) \<Rightarrow> Inr (Some (Callable f))
            | Inr other \<Rightarrow>
                read_property (map (\<lambda>(k, d). (k, as_member d)) (delegators E))
                  (object_prototype E) ''default'') of
        Inl e \<Rightarrow> (Inl e, mid @ [IsCallable h])
      | Inr (Some (Callable f)) \<Rightarrow>
          (case rejects E f h of
             Some e \<Rightarrow> (Inl e, mid @ [IsCallable h])
           | None \<Rightarrow> (Inr (Proxy h f), mid @ [IsCallable h]))
      | Inr other \<Rightarrow> (Inl (TypeError ''fn is not a function''), mid @ [IsCallable h]))"
proof -
  have ch: "choose_delegator E callable (module, name) =
      (case (if callable
                  then read_property (map (\<lambda>(k, d). (k, as_member d)) (delegators E))
                         (object_prototype E) ''callee''
                  else (case map_of (delegators E) module of
                          None \<Rightarrow> Inr None
                        | Some d \<Rightarrow> read_property (members_of E d) (object_prototype E) name)) of
              Inl e \<Rightarrow> Inl e
            | Inr (Some (Callable f)) \<Rightarrow> Inr (Some (Callable f))
            | Inr other \<Rightarrow>
                read_property (map (\<lambda>(k, d). (k, as_member d)) (delegators E))
                  (object_prototype E) ''default'')"
    by (auto simp: choose_delegator_def split: sum.splits option.splits member.splits)
  have "wrap rt E (Ref h) log =
      (case choose_delegator E callable (module, name) of
        Inl e \<Rightarrow> (Inl e, mid @ [IsCallable h])
      | Inr (Some (Callable f)) \<Rightarrow>
          (case rejects E f h of
             Some e \<Rightarrow> (Inl e, mid @ [IsCallable h])
           | None \<Rightarrow> (Inr (Proxy h f), mid @ [IsCallable h]))
      | Inr other \<Rightarrow> (Inl (TypeError ''fn is not a function''), mid @ [IsCallable h]))"
    using assms
    by (simp add: wrap_def bnd_Inr [where m = "getTypeInfo rt E (Ref h)", OF assms(1)]
        bnd_def on_handle_def py_iscallable_def native_def ret_def throw_def
        split: sum.splits option.splits member.splits)
  then show ?thesis
    unfolding ch .
qed

text \<open>
  Claim C7, at a handle whose type is named \<^verbatim>\<open>toString\<close> in a module that has delegators:
  the group of the module has no member of that name, yet the read gives a function,
  the one inherited from \<^verbatim>\<open>Object.prototype\<close>, where the claim says undefined.  \<^verbatim>\<open>wrap\<close>
  calls that function as the factory and never turns to the delegator under \<^verbatim>\<open>default\<close>,
  which this table has: here the call throws.
\<close>

theorem delegator_inherited_member:
  "map_of (delegators demo_env) ''app'' = Some (Group [(''Point'', Callable 2)])
   \<and> map_of [(''Point'', Callable 2)] ''toString'' = None
   \<and> getDelegator demo_env (TypeId ''app'' ''toString'') = Inr (Some (Callable 905))
   \<and> getDelegator demo_env (Literal ''default'') = Inr (Some (Callable 0))
   \<and> wrap demo_rt demo_env (Ref 17) [] =
       (Inl (TypeError ''not a factory''), type_calls 17 @ [IsCallable 17])"
proof -
  have g: "getDelegator demo_env (TypeId ''app'' ''toString'') = Inr (Some (Callable 905))"
    by (simp add: demo_env_def read_property_def demo_object_prototype_def)
  have d: "getDelegator demo_env (Literal ''default'') = Inr (Some (Callable 0))"
    by (simp add: demo_env_def read_property_def)
  have c: "choose_delegator demo_env False (''app'', ''toString'') = Inr (Some (Callable 905))"
    by (simp add: choose_delegator_def g del: getDelegator.simps)
  have r: "rejects demo_env 905 17 = Some (TypeError ''not a factory'')"
    by (simp add: demo_env_def)
  have "wrap demo_rt demo_env (Ref 17) [] =
       (Inl (TypeError ''not a factory''), type_calls 17 @ [IsCallable 17])"
    by (simp add: wrap_def bnd_Inr [OF demo_getTypeInfo] demo_type_def primitive_names_def)
       (simp add: bnd_def on_handle_def py_iscallable_def native_def demo_rt_def c r throw_def)
  with g d show ?thesis
    by (simp add: demo_env_def)
qed

section \<open>What a computation adds to the log\<close>

lemma appends_ret: "appends P (ret x)"
  by (simp add: appends_def ret_def)

lemma appends_throw: "appends P (throw e)"
  by (simp add: appends_def throw_def)

lemma appends_native: "P c \<Longrightarrow> appends P (native a c)"
  by (auto simp: appends_def native_def split: sum.splits)

lemma appends_bnd:
  assumes "appends P m" "\<And>x. appends P (f x)"
  shows "appends P (bnd m f)"
proof (unfold appends_def, rule allI)
  fix log
  from assms(1) obtain t where t: "snd (m log) = log @ t" "list_all P t"
    by (auto simp: appends_def)
  show "\<exists>t. snd (bnd m f log) = log @ t \<and> list_all P t"
  proof (cases "m log")
    case (Pair r mid)
    with t have mid: "mid = log @ t" by simp
    show ?thesis
    proof (cases r)
      case (Inl e)
      with Pair t show ?thesis by (auto simp: bnd_def)
    next
      case (Inr x)
      from assms(2) [of x] obtain t' where "snd (f x mid) = mid @ t'" "list_all P t'"
        by (auto simp: appends_def)
      with Pair Inr mid t show ?thesis
        by (intro exI [of _ "t @ t'"]) (simp add: bnd_def)
    qed
  qed
qed

lemma appends_on_handle: "(\<And>h. appends P (f h)) \<Longrightarrow> appends P (on_handle T f)"
  by (cases T) (simp_all add: on_handle_def appends_throw)

lemma appends_getTypeInfo: "appends (wrap_call (builtins E)) (getTypeInfo rt E T)"
  unfolding getTypeInfo_def py_defs
  by (intro appends_bnd appends_on_handle appends_native appends_ret) simp_all

lemma appends_wrap: "appends (wrap_call (builtins E)) (wrap rt E T)"
  unfolding wrap_def py_defs
  by (auto intro!: appends_bnd appends_on_handle appends_native appends_ret appends_throw
      appends_getTypeInfo split: sum.splits option.splits member.splits)

lemma wrap_extends:
  "wrap rt E T log = (r, log') \<Longrightarrow> \<exists>t. log' = log @ t \<and> list_all (wrap_call (builtins E)) t"
  using appends_wrap [of E rt T] by (auto simp: appends_def dest: spec [of _ log])

section \<open>Properties of the proxy dispatch layer\<close>

lemma bit_length_le: "bit_length n \<le> k \<longleftrightarrow> n < 2 ^ k"
proof (induction n arbitrary: k rule: bit_length.induct)
  case (1 n)
  show ?case
  proof (cases "n = 0")
    case True
    then show ?thesis by (simp add: bit_length.simps [of 0])
  next
    case False
    show ?thesis
    proof (cases k)
      case 0
      with False show ?thesis by (simp add: bit_length.simps [of n])
    next
      case (Suc j)
      have "bit_length (n div 2) \<le> j \<longleftrightarrow> n div 2 < 2 ^ j"
        using 1 [OF False] .
      moreover have "n div 2 < 2 ^ j \<longleftrightarrow> n < 2 ^ Suc j"
        by auto
      ultimately show ?thesis
        using False Suc by (simp add: bit_length.simps [of n])
    qed
  qed
qed

lemma to_double_exact: "n < 2 ^ 53 \<Longrightarrow> to_double n = n"
proof -
  assume "n < 2 ^ 53"
  then have "bit_length n \<le> 53" by (simp add: bit_length_le)
  then show ?thesis by (simp add: to_double_def)
qed

lemma decimal_acc:
  "foldl (\<lambda>n c. 10 * n + (of_char c - 48)) (a::nat) cs \<ge> a * 10 ^ length cs"
proof (induction cs arbitrary: a)
  case Nil
  show ?case by simp
next
  case (Cons c cs)
  have "a * 10 ^ length (c # cs) \<le> (10 * a + (of_char c - 48)) * 10 ^ length cs"
    by (simp add: algebra_simps)
  also have "\<dots> \<le> foldl (\<lambda>n c. 10 * n + (of_char c - 48)) (10 * a + (of_char c - 48)) cs"
    by (rule Cons.IH)
  finally show ?case by simp
qed

lemma decimal_significant: "decimal (significant s) = decimal s"
  by (induction s) (simp_all add: decimal_def significant_def)

lemma significant_bound:
  assumes "list_all is_digit s" "decimal s < 10 ^ 20"
  shows "length (significant s) \<le> 20"
proof (cases "significant s")
  case Nil
  then show ?thesis by simp
next
  case (Cons c cs)
  have "c \<in> set (significant s)" using Cons by simp
  then have "c \<in> set s" unfolding significant_def by (rule set_dropWhileD)
  with assms(1) have d: "is_digit c" by (simp add: list_all_iff)
  have "c \<noteq> CHR ''0''"
    using Cons hd_dropWhile [of "\<lambda>c. c = CHR ''0''" s] by (auto simp: significant_def)
  have "of_char c \<noteq> (48::nat)"
  proof
    assume "of_char c = (48::nat)"
    then have "char_of (of_char c :: nat) = char_of (48::nat)" by simp
    moreover have "char_of (of_char c :: nat) = c" by simp
    moreover have "char_of (48::nat) = CHR ''0''" by (simp add: char_of_def bit_Suc_0_iff)
    ultimately have "c = CHR ''0''" by simp
    with \<open>c \<noteq> CHR ''0''\<close> show False by simp
  qed
  with d have "of_char c - (48::nat) \<ge> 1"
    unfolding is_digit_def by linarith
  then have "1 * 10 ^ length cs \<le> (of_char c - (48::nat)) * 10 ^ length cs"
    by (intro mult_right_mono) simp_all
  also have "\<dots> \<le> decimal (c # cs)"
    using decimal_acc [of "of_char c - 48" cs] by (simp add: decimal_def)
  also have "\<dots> = decimal s"
    using Cons decimal_significant [of s] by simp
  finally have "(10::nat) ^ length cs < 10 ^ 20"
    using assms(2) by simp
  then have "length cs < 20"
    by (rule power_less_imp_less_exp [rotated]) simp
  with Cons show ?thesis by simp
qed

lemma parseInt_small:
  assumes "is_index s" "decimal s < 2 ^ 53"
  shows "parseInt E s = Number (int (decimal s))"
proof -
  have "(2::nat) ^ 53 < 10 ^ 20" by simp
  with assms(2) have "decimal s < 10 ^ 20" by linarith
  with assms(1) have "length (significant s) \<le> 20"
    by (intro significant_bound) (simp_all add: is_index_def)
  with assms(2) show ?thesis
    by (simp add: parseInt_def to_double_exact)
qed

lemma big: "decimal ''9007199254740993'' = 9007199254740993"
  by (simp add: decimal_def)

lemma big2: "to_double 9007199254740993 = 9007199254740992"
  by (simp add: to_double_def bit_length.simps)

lemma big3: "parseInt E ''9007199254740993'' = Number 9007199254740992"
  by (simp add: parseInt_def significant_def big big2)

lemma not_installed_not_frozen:
  "own_or_inherited E h fn name = None \<Longrightarrow> \<not> frozen E h fn name"
  by (auto simp: own_or_inherited_def frozen_def split: option.splits installed.splits)

lemma has_message_Thrown: "has_message (Thrown v) \<longleftrightarrow> v \<noteq> Null \<and> v \<noteq> Undefined"
  by (cases v) simp_all

lemma proxy_get_unfrozen:
  "\<not> frozen E h fn name \<Longrightarrow> proxy_get rt E h fn name log = get_trap rt E h fn name log"
  by (cases "get_trap rt E h fn name log")
     (auto simp: proxy_get_def bnd_def ret_def split: sum.splits)

lemma demo_members:
  "own_or_inherited demo_env 13 2 (StrKey ''x'') = None"
  "own_or_inherited demo_env 13 2 (StrKey ''zzz'') = None"
  "own_or_inherited demo_env 12 0 (StrKey ''1'') = None"
  "own_or_inherited demo_env 12 0 (StrKey ''9007199254740993'') = None"
  "installed_at demo_env (StrKey ''norm'') = None"
  "installed_at demo_env (StrKey ''label'') = None"
  "own_or_inherited demo_env 13 2 (StrKey ''invoke'') = Some (BoundCap InvokeArgs 13 2)"
  "frozen demo_env 13 2 (StrKey ''invoke'')"
  "\<not> frozen demo_env 12 0 (StrKey ''0'')"
  "\<not> frozen demo_env 12 0 (StrKey ''9007199254740993'')"
  "\<not> frozen demo_env 13 2 (StrKey ''x'')"
  "\<not> frozen demo_env 13 2 (StrKey ''y'')"
  by (simp_all add: own_or_inherited_def installed_at_def frozen_def demo_env_def)

lemma demo_indices:
  "is_index ''0''" "is_index ''1''" "is_index ''9007199254740993''"
  "\<not> is_index ''x''" "\<not> is_index ''y''" "\<not> is_index ''zzz''" "\<not> is_index ''invoke''"
  by (simp_all add: is_index_def is_digit_def)

text \<open>
  Claim C2, as stated, fails.  A name of digits is not always read at the index it
  denotes: the index is a double, so the name \<^verbatim>\<open>9007199254740993\<close> is read by item-get at
  9007199254740992.  And one own property is not returned: the read of \<^verbatim>\<open>invoke\<close>, which
  the trap answers with the bound function, throws a type error.
\<close>

theorem get_trap_order_counterexample:
  "decimal ''9007199254740993'' = 9007199254740993
   \<and> proxy_get demo_rt demo_env 12 0 (StrKey ''9007199254740993'') [] =
       (Inl (Thrown (String ''KeyError'')), [GetItem 12 (Arg (Number 9007199254740992))])
   \<and> own_or_inherited demo_env 13 2 (StrKey ''invoke'') = Some (BoundCap InvokeArgs 13 2)
   \<and> proxy_get demo_rt demo_env 13 2 (StrKey ''invoke'') [] =
       (Inl (TypeError ''proxy get: inconsistent with a non-configurable property''), [])"
proof -
  have "get_trap demo_rt demo_env 12 0 (StrKey ''9007199254740993'') [] =
       (Inl (Thrown (String ''KeyError'')), [GetItem 12 (Arg (Number 9007199254740992))])"
    by (simp add: get_trap_def demo_members demo_indices big3 bnd_def py_getitem_def native_def
        demo_rt_def demo_getitem_def)
  then have 1: "proxy_get demo_rt demo_env 12 0 (StrKey ''9007199254740993'') [] =
       (Inl (Thrown (String ''KeyError'')), [GetItem 12 (Arg (Number 9007199254740992))])"
    by (simp add: proxy_get_unfrozen demo_members)
  have 2: "proxy_get demo_rt demo_env 13 2 (StrKey ''invoke'') [] =
       (Inl (TypeError ''proxy get: inconsistent with a non-configurable property''), [])"
    by (simp add: proxy_get_def get_trap_def demo_members bnd_def ret_def throw_def)
  from 1 2 show ?thesis
    by (simp add: big demo_members)
qed

text \<open>
  Claim C2, amended.  A read of the member \<open>name\<close> of a proxy resolves in this order.  (1) A
  property the proxy's object has of its own, or one of \<^verbatim>\<open>constructor.prototype\<close>, is the
  result, with no native call, a function bound to the proxy; this is said of every such
  property but the one that is a function and neither writable nor configurable.  (2)
  Otherwise a name of decimal digits is read by item-get at the index that \<^verbatim>\<open>parseInt\<close>
  gives: the number the name denotes when that is below \<open>2 ^ 53\<close>, and its double for a
  name of at most 20 significant digits.  (3) Otherwise a name the handle says it has as
  an attribute is read by attribute-get, and no item-get is made.  (4) Otherwise (the
  handle has no such attribute, or the name is a symbol) item-get by the name is tried:
  when it gives \<^verbatim>\<open>null\<close> or \<^verbatim>\<open>undefined\<close>, or it raises a value other than these two, or
  \<^verbatim>\<open>wrap\<close> raises such a value, the member is \<^verbatim>\<open>undefined\<close> and nothing is thrown.  In (2),
  (3) and (4) the foreign value goes through \<^verbatim>\<open>wrap\<close>, whose result is the member.
\<close>

theorem get_trap_order:
  "(own_or_inherited E h fn name = Some g \<and> (frozen E h fn name \<longrightarrow> g = HandleOf h) \<longrightarrow>
      proxy_get rt E h fn name log = (Inr g, log))
   \<and> (installed_at E name = None
        \<and> (map_of (t_own (produce E fn h)) name = Some v
           \<or> map_of (t_own (produce E fn h)) name = None
             \<and> map_of (t_proto (produce E fn h)) name = Some v) \<longrightarrow>
      own_or_inherited E h fn name =
        Some (case v of Function f \<Rightarrow> BoundHost f h fn | _ \<Rightarrow> Value v)
      \<and> \<not> frozen E h fn name)
   \<and> (own_or_inherited E h fn (StrKey s) = None \<and> is_index s \<longrightarrow>
      proxy_get rt E h fn (StrKey s) log =
        (case r_getitem rt log h (Arg (parseInt E s)) of
           Inl e \<Rightarrow> (Inl (Thrown e), log @ [GetItem h (Arg (parseInt E s))])
         | Inr r \<Rightarrow>
             (case wrap rt E r (log @ [GetItem h (Arg (parseInt E s))]) of
                (Inl e, l) \<Rightarrow> (Inl e, l)
              | (Inr w, l) \<Rightarrow> (Inr (Foreign w), l))))
   \<and> (is_index s \<and> decimal s < 2 ^ 53 \<longrightarrow> parseInt E s = Number (int (decimal s)))
   \<and> (length (significant s) \<le> 20 \<longrightarrow> parseInt E s = Number (int (to_double (decimal s))))
   \<and> (own_or_inherited E h fn (StrKey s) = None \<and> \<not> is_index s
        \<and> r_hasattr rt log h s = Inr True \<longrightarrow>
      proxy_get rt E h fn (StrKey s) log =
        (case r_getattr rt (log @ [HasAttr h s]) h s of
           Inl e \<Rightarrow> (Inl (Thrown e), log @ [HasAttr h s, GetAttr h s])
         | Inr r \<Rightarrow>
             (case wrap rt E r (log @ [HasAttr h s, GetAttr h s]) of
                (Inl e, l) \<Rightarrow> (Inl e, l)
              | (Inr w, l) \<Rightarrow> (Inr (Foreign w), l))))
   \<and> (own_or_inherited E h fn name = None
        \<and> (name = StrKey s \<and> \<not> is_index s \<and> r_hasattr rt log h s = Inr False
             \<and> before = log @ [HasAttr h s]
           \<or> name = SymKey s \<and> before = log) \<longrightarrow>
        (case r_getitem rt before h (Arg (key_value name)) of
           Inl e \<Rightarrow>
             e \<noteq> Null \<and> e \<noteq> Undefined \<longrightarrow>
             proxy_get rt E h fn name log =
               (Inr (Value Undefined), before @ [GetItem h (Arg (key_value name))])
         | Inr r \<Rightarrow>
             if r = Val Null \<or> r = Val Undefined
             then proxy_get rt E h fn name log =
                    (Inr (Value Undefined), before @ [GetItem h (Arg (key_value name))])
             else
               (case wrap rt E r (before @ [GetItem h (Arg (key_value name))]) of
                  (Inl x, l) \<Rightarrow>
                    has_message x \<longrightarrow> proxy_get rt E h fn name log = (Inr (Value Undefined), l)
                | (Inr w, l) \<Rightarrow> proxy_get rt E h fn name log = (Inr (Foreign w), l))))"
proof (intro conjI impI)
  assume "own_or_inherited E h fn name = Some g \<and> (frozen E h fn name \<longrightarrow> g = HandleOf h)"
  then show "proxy_get rt E h fn name log = (Inr g, log)"
    by (auto simp: proxy_get_def get_trap_def bnd_def ret_def)
next
  assume a: "installed_at E name = None
        \<and> (map_of (t_own (produce E fn h)) name = Some v
           \<or> map_of (t_own (produce E fn h)) name = None
             \<and> map_of (t_proto (produce E fn h)) name = Some v)"
  then show "own_or_inherited E h fn name =
        Some (case v of Function f \<Rightarrow> BoundHost f h fn | _ \<Rightarrow> Value v)"
    by (auto simp: own_or_inherited_def bind_value_def)
  from a show "\<not> frozen E h fn name"
    by (simp add: frozen_def)
next
  assume a: "own_or_inherited E h fn (StrKey s) = None \<and> is_index s"
  then have "get_trap rt E h fn (StrKey s) log =
        (case r_getitem rt log h (Arg (parseInt E s)) of
           Inl e \<Rightarrow> (Inl (Thrown e), log @ [GetItem h (Arg (parseInt E s))])
         | Inr r \<Rightarrow>
             (case wrap rt E r (log @ [GetItem h (Arg (parseInt E s))]) of
                (Inl e, l) \<Rightarrow> (Inl e, l)
              | (Inr w, l) \<Rightarrow> (Inr (Foreign w), l)))"
    by (simp add: get_trap_def bnd_def ret_def native_def py_getitem_def
        split: sum.splits prod.splits)
  with a show "proxy_get rt E h fn (StrKey s) log =
        (case r_getitem rt log h (Arg (parseInt E s)) of
           Inl e \<Rightarrow> (Inl (Thrown e), log @ [GetItem h (Arg (parseInt E s))])
         | Inr r \<Rightarrow>
             (case wrap rt E r (log @ [GetItem h (Arg (parseInt E s))]) of
                (Inl e, l) \<Rightarrow> (Inl e, l)
              | (Inr w, l) \<Rightarrow> (Inr (Foreign w), l)))"
    by (simp add: proxy_get_unfrozen not_installed_not_frozen)
next
  assume "is_index s \<and> decimal s < 2 ^ 53"
  then show "parseInt E s = Number (int (decimal s))"
    by (simp add: parseInt_small)
next
  assume "length (significant s) \<le> 20"
  then show "parseInt E s = Number (int (to_double (decimal s)))"
    by (simp add: parseInt_def)
next
  assume a: "own_or_inherited E h fn (StrKey s) = None \<and> \<not> is_index s
        \<and> r_hasattr rt log h s = Inr True"
  then have "get_trap rt E h fn (StrKey s) log =
        (case r_getattr rt (log @ [HasAttr h s]) h s of
           Inl e \<Rightarrow> (Inl (Thrown e), log @ [HasAttr h s, GetAttr h s])
         | Inr r \<Rightarrow>
             (case wrap rt E r (log @ [HasAttr h s, GetAttr h s]) of
                (Inl e, l) \<Rightarrow> (Inl e, l)
              | (Inr w, l) \<Rightarrow> (Inr (Foreign w), l)))"
    by (simp add: get_trap_def bnd_def ret_def native_def py_getattr_def py_hasattr_def
        split: sum.splits prod.splits)
  with a show "proxy_get rt E h fn (StrKey s) log =
        (case r_getattr rt (log @ [HasAttr h s]) h s of
           Inl e \<Rightarrow> (Inl (Thrown e), log @ [HasAttr h s, GetAttr h s])
         | Inr r \<Rightarrow>
             (case wrap rt E r (log @ [HasAttr h s, GetAttr h s]) of
                (Inl e, l) \<Rightarrow> (Inl e, l)
              | (Inr w, l) \<Rightarrow> (Inr (Foreign w), l)))"
    by (simp add: proxy_get_unfrozen not_installed_not_frozen)
next
  assume a: "own_or_inherited E h fn name = None
        \<and> (name = StrKey s \<and> \<not> is_index s \<and> r_hasattr rt log h s = Inr False
             \<and> before = log @ [HasAttr h s]
           \<or> name = SymKey s \<and> before = log)"
  then have g: "get_trap rt E h fn name log = get_item_or_undefined rt E h name before"
    by (auto simp: get_trap_def bnd_def native_def py_hasattr_def)
  from a have p: "proxy_get rt E h fn name log = get_trap rt E h fn name log"
    by (simp add: proxy_get_unfrozen not_installed_not_frozen)
  show "(case r_getitem rt before h (Arg (key_value name)) of
           Inl e \<Rightarrow>
             e \<noteq> Null \<and> e \<noteq> Undefined \<longrightarrow>
             proxy_get rt E h fn name log =
               (Inr (Value Undefined), before @ [GetItem h (Arg (key_value name))])
         | Inr r \<Rightarrow>
             if r = Val Null \<or> r = Val Undefined
             then proxy_get rt E h fn name log =
                    (Inr (Value Undefined), before @ [GetItem h (Arg (key_value name))])
             else
               (case wrap rt E r (before @ [GetItem h (Arg (key_value name))]) of
                  (Inl x, l) \<Rightarrow>
                    has_message x \<longrightarrow> proxy_get rt E h fn name log = (Inr (Value Undefined), l)
                | (Inr w, l) \<Rightarrow> proxy_get rt E h fn name log = (Inr (Foreign w), l)))"
    unfolding p g
    by (auto simp: get_item_or_undefined_def try_catch_def bnd_def ret_def native_def
        py_getitem_def has_message_Thrown split: sum.splits prod.splits)
qed

theorem get_trap_order_witness:
  "proxy_get demo_rt demo_env 13 2 (StrKey ''norm'') [] = (Inr (BoundHost 7 13 2), [])
   \<and> proxy_get demo_rt demo_env 13 2 (StrKey ''label'') [] = (Inr (Value (String ''pt'')), [])
   \<and> proxy_get demo_rt demo_env 12 0 (StrKey ''1'') [] =
       (Inr (Foreign (Plain (Val (Number 8)))),
        [GetItem 12 (Arg (Number 1))] @ type_calls 21 @ [ToPrimitive 21])
   \<and> proxy_get demo_rt demo_env 13 2 (StrKey ''x'') [] =
       (Inr (Foreign (Plain (Val (Number 42)))),
        [HasAttr 13 ''x'', GetAttr 13 ''x''] @ type_calls 10 @ [ToPrimitive 10])
   \<and> proxy_get demo_rt demo_env 13 2 (StrKey ''zzz'') [] =
       (Inr (Value Undefined), [HasAttr 13 ''zzz'', GetItem 13 (Arg (String ''zzz''))])"
proof -
  have d1: "decimal ''1'' = 1"
    by (simp add: decimal_def)
  have p: "parseInt demo_env ''1'' = Number 1"
    using get_trap_order [where E = demo_env and s = "''1''"] demo_indices d1
    by simp
  have o1: "own_or_inherited demo_env 13 2 (StrKey ''norm'') = Some (BoundHost 7 13 2)
      \<and> \<not> frozen demo_env 13 2 (StrKey ''norm'')"
    using get_trap_order [where E = demo_env and h = 13 and fn = 2 and name = "StrKey ''norm''"
        and v = "Function 7"] demo_members
    by (simp add: demo_env_def)
  have o2: "own_or_inherited demo_env 13 2 (StrKey ''label'') = Some (Value (String ''pt''))
      \<and> \<not> frozen demo_env 13 2 (StrKey ''label'')"
    using get_trap_order [where E = demo_env and h = 13 and fn = 2 and name = "StrKey ''label''"
        and v = "String ''pt''"] demo_members
    by (simp add: demo_env_def)
  have 1: "proxy_get demo_rt demo_env 13 2 (StrKey ''norm'') [] = (Inr (BoundHost 7 13 2), [])"
    using get_trap_order [where E = demo_env and h = 13 and fn = 2 and name = "StrKey ''norm''"
        and g = "BoundHost 7 13 2" and rt = demo_rt and log = "[]"] o1
    by simp
  have 2: "proxy_get demo_rt demo_env 13 2 (StrKey ''label'') [] =
      (Inr (Value (String ''pt'')), [])"
    using get_trap_order [where E = demo_env and h = 13 and fn = 2 and name = "StrKey ''label''"
        and g = "Value (String ''pt'')" and rt = demo_rt and log = "[]"] o2
    by simp
  have w21: "wrap demo_rt demo_env (Ref 21) [GetItem 12 (Arg (Number 1))] =
      (Inr (Plain (Val (Number 8))), [GetItem 12 (Arg (Number 1))] @ type_calls 21 @ [ToPrimitive 21])"
    by (rule demo_wrap_int) (simp_all add: demo_type_def demo_toprimitive_def)
  have 3: "proxy_get demo_rt demo_env 12 0 (StrKey ''1'') [] =
       (Inr (Foreign (Plain (Val (Number 8)))),
        [GetItem 12 (Arg (Number 1))] @ type_calls 21 @ [ToPrimitive 21])"
    using get_trap_order [where E = demo_env and h = 12 and fn = 0 and s = "''1''"
        and rt = demo_rt and log = "[]"] demo_members demo_indices p w21
    by (simp add: demo_rt_def demo_getitem_def)
  have w10: "wrap demo_rt demo_env (Ref 10) [HasAttr 13 ''x'', GetAttr 13 ''x''] =
      (Inr (Plain (Val (Number 42))),
       [HasAttr 13 ''x'', GetAttr 13 ''x''] @ type_calls 10 @ [ToPrimitive 10])"
    by (rule demo_wrap_int) (simp_all add: demo_type_def demo_toprimitive_def)
  have 4: "proxy_get demo_rt demo_env 13 2 (StrKey ''x'') [] =
       (Inr (Foreign (Plain (Val (Number 42)))),
        [HasAttr 13 ''x'', GetAttr 13 ''x''] @ type_calls 10 @ [ToPrimitive 10])"
    using get_trap_order [where E = demo_env and h = 13 and fn = 2 and s = "''x''"
        and rt = demo_rt and log = "[]"] demo_members demo_indices w10
    by (simp add: demo_rt_def demo_getattr_def)
  have 5: "proxy_get demo_rt demo_env 13 2 (StrKey ''zzz'') [] =
       (Inr (Value Undefined), [HasAttr 13 ''zzz'', GetItem 13 (Arg (String ''zzz''))])"
    using get_trap_order [where E = demo_env and h = 13 and fn = 2 and s = "''zzz''"
        and name = "StrKey ''zzz''" and before = "[HasAttr 13 ''zzz'']"
        and rt = demo_rt and log = "[]"] demo_members demo_indices
    by (simp add: demo_rt_def demo_getitem_def)
  from 1 2 3 4 5 show ?thesis by simp
qed

text \<open>
  Claim C4, as stated, fails.  A name of digits is not always set at the index it
  denotes: the name \<^verbatim>\<open>9007199254740993\<close> makes the item-set at 9007199254740992.  And the
  assignment to \<^verbatim>\<open>invoke\<close> gives no boolean: after the foreign mutations it throws a
  type error.
\<close>

theorem set_trap_order_counterexample:
  "decimal ''9007199254740993'' = 9007199254740993
   \<and> proxy_set demo_rt demo_env 12 0 (StrKey ''9007199254740993'') (Number 5) [] =
       (Inr True, [SetItem 12 (Arg (Number 9007199254740992)) (Arg (Number 5))])
   \<and> proxy_set demo_rt demo_env 13 2 (StrKey ''invoke'') (Number 5) [] =
       (Inl (TypeError ''proxy set: a non-writable, non-configurable property''),
        [HasAttr 13 ''invoke'', SetItem 13 (Arg (String ''invoke'')) (Arg (Number 5)),
         SetAttr 13 (Arg (String ''invoke'')) (Arg (Number 5))])"
proof -
  have 1: "proxy_set demo_rt demo_env 12 0 (StrKey ''9007199254740993'') (Number 5) [] =
       (Inr True, [SetItem 12 (Arg (Number 9007199254740992)) (Arg (Number 5))])"
    by (simp add: proxy_set_def set_trap_def demo_members demo_indices big3 bnd_def
        py_setitem_def native_def demo_rt_def ret_def)
  have 2: "proxy_set demo_rt demo_env 13 2 (StrKey ''invoke'') (Number 5) [] =
       (Inl (TypeError ''proxy set: a non-writable, non-configurable property''),
        [HasAttr 13 ''invoke'', SetItem 13 (Arg (String ''invoke'')) (Arg (Number 5)),
         SetAttr 13 (Arg (String ''invoke'')) (Arg (Number 5))])"
    by (simp add: proxy_set_def set_trap_def demo_members demo_indices bnd_def
        py_setitem_def py_setattr_def py_hasattr_def native_def demo_rt_def ret_def throw_def)
  from 1 2 show ?thesis by (simp add: big)
qed

text \<open>
  Claim C4, amended.  An assignment to the member \<open>name\<close> of a proxy, for every name but
  the two that the proxy's object holds as properties neither writable nor configurable,
  resolves in this order.  A name of decimal digits makes one native call, the item-set
  at the index that \<^verbatim>\<open>parseInt\<close> gives (the number the name denotes when that is below
  \<open>2 ^ 53\<close>, its double for a name of at most 20 significant digits), and no
  attribute-set.  Otherwise a name the handle says it has as an attribute makes the
  attribute-set.  Otherwise the item-set by the name is made, and the attribute-set after
  it when the item-set returned \<open>-1\<close>.  The result is whether the last mutation made
  returned something other than \<open>-1\<close>.
\<close>

theorem set_trap_order:
  "(is_index s \<and> \<not> frozen E h fn (StrKey s) \<longrightarrow>
      proxy_set rt E h fn (StrKey s) v log =
        (case r_setitem rt log h (Arg (parseInt E s)) (Arg v) of
           Inl e \<Rightarrow> (Inl (Thrown e), log @ [SetItem h (Arg (parseInt E s)) (Arg v)])
         | Inr r \<Rightarrow> (Inr (r \<noteq> -1), log @ [SetItem h (Arg (parseInt E s)) (Arg v)])))
   \<and> (is_index s \<and> decimal s < 2 ^ 53 \<longrightarrow> parseInt E s = Number (int (decimal s)))
   \<and> (length (significant s) \<le> 20 \<longrightarrow> parseInt E s = Number (int (to_double (decimal s))))
   \<and> (\<not> is_index s \<and> \<not> frozen E h fn (StrKey s) \<and> r_hasattr rt log h s = Inr True \<longrightarrow>
      proxy_set rt E h fn (StrKey s) v log =
        (case r_setattr rt (log @ [HasAttr h s]) h (Arg (String s)) (Arg v) of
           Inl e \<Rightarrow> (Inl (Thrown e), log @ [HasAttr h s, SetAttr h (Arg (String s)) (Arg v)])
         | Inr r \<Rightarrow> (Inr (r \<noteq> -1), log @ [HasAttr h s, SetAttr h (Arg (String s)) (Arg v)])))
   \<and> (\<not> frozen E h fn name
        \<and> (name = StrKey s \<and> \<not> is_index s \<and> r_hasattr rt log h s = Inr False
             \<and> before = log @ [HasAttr h s]
           \<or> name = SymKey s \<and> before = log) \<longrightarrow>
      proxy_set rt E h fn name v log =
        (case r_setitem rt before h (Arg (key_value name)) (Arg v) of
           Inl e \<Rightarrow> (Inl (Thrown e), before @ [SetItem h (Arg (key_value name)) (Arg v)])
         | Inr r \<Rightarrow>
             if r \<noteq> -1
             then (Inr True, before @ [SetItem h (Arg (key_value name)) (Arg v)])
             else
               (case r_setattr rt (before @ [SetItem h (Arg (key_value name)) (Arg v)]) h
                        (Arg (key_value name)) (Arg v) of
                  Inl e \<Rightarrow>
                    (Inl (Thrown e),
                     before @ [SetItem h (Arg (key_value name)) (Arg v),
                               SetAttr h (Arg (key_value name)) (Arg v)])
                | Inr r' \<Rightarrow>
                    (Inr (r' \<noteq> -1),
                     before @ [SetItem h (Arg (key_value name)) (Arg v),
                               SetAttr h (Arg (key_value name)) (Arg v)]))))"
proof -
  have unfrozen: "proxy_set rt E h fn name v log = set_trap rt E h name v log"
    if "\<not> frozen E h fn name" for name
    using that
    by (cases "set_trap rt E h name v log")
       (auto simp: proxy_set_def bnd_def ret_def split: sum.splits)
  have a: "is_index s \<and> decimal s < 2 ^ 53 \<longrightarrow> parseInt E s = Number (int (decimal s))"
    by (simp add: parseInt_small)
  have b: "length (significant s) \<le> 20 \<longrightarrow>
      parseInt E s = Number (int (to_double (decimal s)))"
    by (simp add: parseInt_def)
  have c: "is_index s \<and> \<not> frozen E h fn (StrKey s) \<longrightarrow>
      proxy_set rt E h fn (StrKey s) v log =
        (case r_setitem rt log h (Arg (parseInt E s)) (Arg v) of
           Inl e \<Rightarrow> (Inl (Thrown e), log @ [SetItem h (Arg (parseInt E s)) (Arg v)])
         | Inr r \<Rightarrow> (Inr (r \<noteq> -1), log @ [SetItem h (Arg (parseInt E s)) (Arg v)]))"
    by (auto simp: unfrozen set_trap_def Let_def bnd_def ret_def native_def py_setitem_def
        split: sum.splits)
  have d: "\<not> is_index s \<and> \<not> frozen E h fn (StrKey s) \<and> r_hasattr rt log h s = Inr True \<longrightarrow>
      proxy_set rt E h fn (StrKey s) v log =
        (case r_setattr rt (log @ [HasAttr h s]) h (Arg (String s)) (Arg v) of
           Inl e \<Rightarrow> (Inl (Thrown e), log @ [HasAttr h s, SetAttr h (Arg (String s)) (Arg v)])
         | Inr r \<Rightarrow> (Inr (r \<noteq> -1), log @ [HasAttr h s, SetAttr h (Arg (String s)) (Arg v)]))"
    by (auto simp: unfrozen set_trap_def Let_def bnd_def ret_def native_def py_setattr_def
        py_hasattr_def split: sum.splits)
  have e: "\<not> frozen E h fn name
        \<and> (name = StrKey s \<and> \<not> is_index s \<and> r_hasattr rt log h s = Inr False
             \<and> before = log @ [HasAttr h s]
           \<or> name = SymKey s \<and> before = log) \<longrightarrow>
      proxy_set rt E h fn name v log =
        (case r_setitem rt before h (Arg (key_value name)) (Arg v) of
           Inl e \<Rightarrow> (Inl (Thrown e), before @ [SetItem h (Arg (key_value name)) (Arg v)])
         | Inr r \<Rightarrow>
             if r \<noteq> -1
             then (Inr True, before @ [SetItem h (Arg (key_value name)) (Arg v)])
             else
               (case r_setattr rt (before @ [SetItem h (Arg (key_value name)) (Arg v)]) h
                        (Arg (key_value name)) (Arg v) of
                  Inl e \<Rightarrow>
                    (Inl (Thrown e),
                     before @ [SetItem h (Arg (key_value name)) (Arg v),
                               SetAttr h (Arg (key_value name)) (Arg v)])
                | Inr r' \<Rightarrow>
                    (Inr (r' \<noteq> -1),
                     before @ [SetItem h (Arg (key_value name)) (Arg v),
                               SetAttr h (Arg (key_value name)) (Arg v)])))"
    by (auto simp: unfrozen set_trap_def Let_def bnd_def ret_def native_def py_setitem_def
        py_setattr_def py_hasattr_def split: sum.splits)
  from a b c d e show ?thesis
    by blast
qed

theorem set_trap_order_witness:
  "proxy_set demo_rt demo_env 12 0 (StrKey ''0'') (Number 5) [] =
     (Inr True, [SetItem 12 (Arg (Number 0)) (Arg (Number 5))])
   \<and> proxy_set demo_rt demo_env 12 0 (StrKey ''0012'') (Number 5) [] =
     (Inr True, [SetItem 12 (Arg (Number 12)) (Arg (Number 5))])
   \<and> proxy_set demo_rt demo_env 13 2 (StrKey ''0012'') (Number 5) [] =
     (Inr False, [SetItem 13 (Arg (Number 12)) (Arg (Number 5))])
   \<and> proxy_set demo_rt demo_env 12 0 (StrKey ''9007199254740993'') (Number 5) [] =
     (Inr True, [SetItem 12 (Arg (Number 9007199254740992)) (Arg (Number 5))])
   \<and> proxy_set demo_rt demo_env 13 2 (StrKey ''x'') (Number 5) [] =
     (Inr True, [HasAttr 13 ''x'', SetAttr 13 (Arg (String ''x'')) (Arg (Number 5))])
   \<and> proxy_set demo_rt demo_env 13 2 (StrKey ''y'') (Number 5) [] =
     (Inr True, [HasAttr 13 ''y'', SetItem 13 (Arg (String ''y'')) (Arg (Number 5)),
                 SetAttr 13 (Arg (String ''y'')) (Arg (Number 5))])"
proof -
  have d0: "decimal ''0'' = 0"
    by (simp add: decimal_def)
  have p: "parseInt demo_env ''0'' = Number 0"
    using set_trap_order [where E = demo_env and s = "''0''"] demo_indices d0
    by simp
  have 1: "proxy_set demo_rt demo_env 12 0 (StrKey ''0'') (Number 5) [] =
     (Inr True, [SetItem 12 (Arg (Number 0)) (Arg (Number 5))])"
    using set_trap_order [where s = "''0''" and rt = demo_rt and E = demo_env and h = 12
        and fn = 0 and v = "Number 5" and log = "[]"] demo_indices demo_members p
    by (simp add: demo_rt_def)
  have i12: "is_index ''0012''"
    by (simp add: is_index_def is_digit_def)
  have d12: "decimal ''0012'' = 12"
    by (simp add: decimal_def)
  have f12: "\<not> frozen demo_env 12 0 (StrKey ''0012'')" "\<not> frozen demo_env 13 2 (StrKey ''0012'')"
    by (simp_all add: frozen_def installed_at_def demo_env_def)
  have p12: "parseInt demo_env ''0012'' = Number 12"
    using set_trap_order [where E = demo_env and s = "''0012''"] i12 d12
    by simp
  have s12: "proxy_set demo_rt demo_env 12 0 (StrKey ''0012'') (Number 5) [] =
     (Inr True, [SetItem 12 (Arg (Number 12)) (Arg (Number 5))])"
    using set_trap_order [where s = "''0012''" and rt = demo_rt and E = demo_env and h = 12
        and fn = 0 and v = "Number 5" and log = "[]"] i12 f12 p12
    by (simp add: demo_rt_def)
  have t12: "proxy_set demo_rt demo_env 13 2 (StrKey ''0012'') (Number 5) [] =
     (Inr False, [SetItem 13 (Arg (Number 12)) (Arg (Number 5))])"
    using set_trap_order [where s = "''0012''" and rt = demo_rt and E = demo_env and h = 13
        and fn = 2 and v = "Number 5" and log = "[]"] i12 f12 p12
    by (simp add: demo_rt_def)
  have pbig: "parseInt demo_env ''9007199254740993'' = Number 9007199254740992"
    using set_trap_order [where E = demo_env and s = "''9007199254740993''"]
    by (simp add: significant_def big big2)
  have sbig: "proxy_set demo_rt demo_env 12 0 (StrKey ''9007199254740993'') (Number 5) [] =
     (Inr True, [SetItem 12 (Arg (Number 9007199254740992)) (Arg (Number 5))])"
    using set_trap_order [where s = "''9007199254740993''" and rt = demo_rt and E = demo_env
        and h = 12 and fn = 0 and v = "Number 5" and log = "[]"] demo_indices demo_members pbig
    by (simp add: demo_rt_def)
  have 2: "proxy_set demo_rt demo_env 13 2 (StrKey ''x'') (Number 5) [] =
     (Inr True, [HasAttr 13 ''x'', SetAttr 13 (Arg (String ''x'')) (Arg (Number 5))])"
    using set_trap_order [where s = "''x''" and rt = demo_rt and E = demo_env and h = 13
        and fn = 2 and v = "Number 5" and log = "[]"] demo_indices demo_members
    by (simp add: demo_rt_def)
  have 3: "proxy_set demo_rt demo_env 13 2 (StrKey ''y'') (Number 5) [] =
     (Inr True, [HasAttr 13 ''y'', SetItem 13 (Arg (String ''y'')) (Arg (Number 5)),
                 SetAttr 13 (Arg (String ''y'')) (Arg (Number 5))])"
    using set_trap_order [where s = "''y''" and rt = demo_rt and E = demo_env and h = 13
        and fn = 2 and v = "Number 5" and log = "[]" and name = "StrKey ''y''"
        and before = "[HasAttr 13 ''y'']"] demo_indices demo_members
    by (simp add: demo_rt_def)
  from 1 s12 t12 sbig 2 3 show ?thesis by simp
qed

section \<open>Properties of the iterator adapter\<close>

lemma iterator_kinds:
  "(r_isiterator rt log h = Inr True \<longrightarrow>
      iterator rt h log = (Inr OfIterator, log @ [IsIterator h]))
   \<and> (r_isiterator rt log h = Inr False
        \<and> r_issequence rt (log @ [IsIterator h]) h = Inr True \<longrightarrow>
      iterator rt h log = (Inr (OfSequence None), log @ [IsIterator h, IsSequence h]))
   \<and> (r_isiterator rt log h = Inr False
        \<and> r_issequence rt (log @ [IsIterator h]) h = Inr False \<longrightarrow>
      iterator rt h log =
        (Inl (TypeError ''object is not iteratable or sequence.''),
         log @ [IsIterator h, IsSequence h]))"
  by (simp add: iterator_def bnd_def ret_def throw_def native_def py_isiterator_def
      py_issequence_def)

lemma iterator_step:
  "r_next rt log h = Inr (d, v) \<longrightarrow>
     iter_next rt E h OfIterator log =
       (case wrap rt E v (log @ [Next h]) of
          (Inl e, l) \<Rightarrow> (Inl e, l)
        | (Inr w, l) \<Rightarrow> (Inr (d, w), l))"
  by (simp add: iter_next_def bnd_def ret_def native_def py_next_def
      split: sum.splits prod.splits)

lemma iterate_stops:
  "iter_next rt E h it log = (Inr (True, w), log') \<longrightarrow>
     iterate (Suc k) rt E h it log = (Inr ([], True), log')"
  by (simp add: bnd_def ret_def)

lemma sequence_step:
  "r_getitem rt log (builtins E) (Arg (String ''len'')) = Inr (Ref l)
   \<and> r_invoke rt (log @ [GetItem (builtins E) (Arg (String ''len''))]) l [HandleObj (Ref h)]
       = Inr (Ref n)
   \<and> r_toprimitive rt (log @ [GetItem (builtins E) (Arg (String ''len'')),
                               Invoke l [HandleObj (Ref h)]]) n = Inr (Number len)
   \<and> log3 = log @ [GetItem (builtins E) (Arg (String ''len'')), Invoke l [HandleObj (Ref h)],
                    ToPrimitive n] \<longrightarrow>
     iter_next rt E h (OfSequence c) log =
       (if next_index c \<ge> len then (Inr (True, Plain (Val Undefined)), log3)
        else
          (case r_getitem rt log3 h (Arg (Number (next_index c))) of
             Inl e \<Rightarrow> (Inl (Thrown e), log3 @ [GetItem h (Arg (Number (next_index c)))])
           | Inr r \<Rightarrow>
               (case wrap rt E r (log3 @ [GetItem h (Arg (Number (next_index c)))]) of
                  (Inl e, l) \<Rightarrow> (Inl e, l)
                | (Inr w, l) \<Rightarrow> (Inr (False, w), l))))"
  by (simp add: iter_next_def bnd_def ret_def native_def py_getitem_def py_invoke_def
      py_toprimitive_def on_handle_def split: sum.splits prod.splits)

lemma iterate_sequence:
  assumes len1: "\<And>log. r_getitem rt log (builtins E) (Arg (String ''len'')) = Inr (Ref l)"
    and len2: "\<And>log. r_invoke rt log l [HandleObj (Ref h)] = Inr (Ref n)"
    and len3: "\<And>log. r_toprimitive rt log n = Inr (Number (int len))"
    and item: "\<And>log i. i < len \<Longrightarrow> r_getitem rt log h (Arg (Number (int i))) = Inr (item i)"
    and wr: "\<And>log i. i < len \<Longrightarrow> fst (wrap rt E (item i) log) = Inr (w i)"
  shows "j \<le> len \<Longrightarrow> next_index c = int j \<Longrightarrow> k = len - j \<Longrightarrow>
     fst (iterate (Suc k) rt E h (OfSequence c) log) = Inr (map w [j..<len], True)"
proof (induction k arbitrary: j c log)
  case 0
  then have jl: "j = len" by simp
  let ?log3 = "log @ [GetItem (builtins E) (Arg (String ''len'')), Invoke l [HandleObj (Ref h)],
                    ToPrimitive n]"
  from sequence_step [of rt log E l h n "int len" ?log3 c] len1 len2 len3 0 jl
  have "iter_next rt E h (OfSequence c) log = (Inr (True, Plain (Val Undefined)), ?log3)"
    by simp
  then show ?case using jl by (simp add: bnd_def ret_def)
next
  case (Suc k)
  then have jl: "j < len" and k: "k = len - Suc j" by simp_all
  let ?log3 = "log @ [GetItem (builtins E) (Arg (String ''len'')), Invoke l [HandleObj (Ref h)],
                    ToPrimitive n]"
  let ?log4 = "?log3 @ [GetItem h (Arg (Number (int j)))]"
  obtain log5 where w5: "wrap rt E (item j) ?log4 = (Inr (w j), log5)"
    using wr [OF jl, of ?log4] by (cases "wrap rt E (item j) ?log4") auto
  from sequence_step [of rt log E l h n "int len" ?log3 c] len1 len2 len3 Suc.prems jl
    item [OF jl, of ?log3] w5
  have st: "iter_next rt E h (OfSequence c) log = (Inr (False, w j), log5)"
    by simp
  have nx: "next_index (Some (next_index c)) = int (Suc j)"
    using Suc.prems by simp
  from Suc.IH [of "Suc j" "Some (next_index c)" log5] jl k nx
  have ih: "fst (iterate (Suc k) rt E h (OfSequence (Some (next_index c))) log5) =
      Inr (map w [Suc j..<len], True)"
    by simp
  obtain log6 where r6: "iterate (Suc k) rt E h (OfSequence (Some (next_index c))) log5 =
      (Inr (map w [Suc j..<len], True), log6)"
    using ih by (cases "iterate (Suc k) rt E h (OfSequence (Some (next_index c))) log5") auto
  have "iterate (Suc (Suc k)) rt E h (OfSequence c) log = (Inr (w j # map w [Suc j..<len], True), log6)"
    using st r6 by (simp add: bnd_def ret_def del: iterate.simps(2)
        add: iterate.simps(2) [of "Suc k" rt E h "OfSequence c"])
  then show ?case using jl by (simp add: upt_conv_Cons del: iterate.simps)
qed

text \<open>
  Claim C5.  \<^verbatim>\<open>[Symbol.iterator]()\<close> asks the handle whether it is an iterator, then whether it
  is a sequence, and throws the type error when it is neither.  A step of the adapter of
  an iterator calls \<^verbatim>\<open>next\<close> and wraps the value; the host's iteration stops at the step
  that says done.  The adapter of a sequence sets its cursor to 0 at the first step and
  adds one at each later step; each step asks the foreign \<^verbatim>\<open>len\<close> again, is done when the
  cursor has reached the length, and otherwise gets the item at the cursor and wraps it.
  So the iteration of a sequence whose length stays \<open>len\<close> gives the \<open>len\<close> wrapped items at
  the cursors \<open>0, ..., len - 1\<close> and completes at step \<open>len + 1\<close>.
\<close>

theorem iteration_protocol:
  "(r_isiterator rt log h = Inr True \<longrightarrow>
      iterator rt h log = (Inr OfIterator, log @ [IsIterator h]))
   \<and> (r_isiterator rt log h = Inr False
        \<and> r_issequence rt (log @ [IsIterator h]) h = Inr True \<longrightarrow>
      iterator rt h log = (Inr (OfSequence None), log @ [IsIterator h, IsSequence h]))
   \<and> (r_isiterator rt log h = Inr False
        \<and> r_issequence rt (log @ [IsIterator h]) h = Inr False \<longrightarrow>
      iterator rt h log =
        (Inl (TypeError ''object is not iteratable or sequence.''),
         log @ [IsIterator h, IsSequence h]))
   \<and> (r_next rt log h = Inr (d, v) \<longrightarrow>
      iter_next rt E h OfIterator log =
        (case wrap rt E v (log @ [Next h]) of
           (Inl e, l) \<Rightarrow> (Inl e, l)
         | (Inr w, l) \<Rightarrow> (Inr (d, w), l)))
   \<and> (iter_next rt E h it log = (Inr (True, x), log') \<longrightarrow>
      iterate (Suc k) rt E h it log = (Inr ([], True), log'))
   \<and> next_index None = 0
   \<and> next_index (Some i) = i + 1
   \<and> advance (OfSequence c) = OfSequence (Some (next_index c))
   \<and> (r_getitem rt log (builtins E) (Arg (String ''len'')) = Inr (Ref l)
       \<and> r_invoke rt (log @ [GetItem (builtins E) (Arg (String ''len''))]) l [HandleObj (Ref h)]
           = Inr (Ref n)
       \<and> r_toprimitive rt (log @ [GetItem (builtins E) (Arg (String ''len'')),
                                   Invoke l [HandleObj (Ref h)]]) n = Inr (Number m)
       \<and> log3 = log @ [GetItem (builtins E) (Arg (String ''len'')),
                        Invoke l [HandleObj (Ref h)], ToPrimitive n] \<longrightarrow>
      iter_next rt E h (OfSequence c) log =
        (if next_index c \<ge> m then (Inr (True, Plain (Val Undefined)), log3)
         else
           (case r_getitem rt log3 h (Arg (Number (next_index c))) of
              Inl e \<Rightarrow> (Inl (Thrown e), log3 @ [GetItem h (Arg (Number (next_index c)))])
            | Inr r \<Rightarrow>
                (case wrap rt E r (log3 @ [GetItem h (Arg (Number (next_index c)))]) of
                   (Inl e, l) \<Rightarrow> (Inl e, l)
                 | (Inr w, l) \<Rightarrow> (Inr (False, w), l)))))
   \<and> ((\<forall>log. r_getitem rt log (builtins E) (Arg (String ''len'')) = Inr (Ref l))
       \<and> (\<forall>log. r_invoke rt log l [HandleObj (Ref h)] = Inr (Ref n))
       \<and> (\<forall>log. r_toprimitive rt log n = Inr (Number (int len)))
       \<and> (\<forall>log i. i < len \<longrightarrow> r_getitem rt log h (Arg (Number (int i))) = Inr (item i))
       \<and> (\<forall>log i. i < len \<longrightarrow> fst (wrap rt E (item i) log) = Inr (ws i)) \<longrightarrow>
      fst (iterate (Suc len) rt E h (OfSequence None) log) = Inr (map ws [0..<len], True))"
proof (intro conjI)
  show "(\<forall>log. r_getitem rt log (builtins E) (Arg (String ''len'')) = Inr (Ref l))
       \<and> (\<forall>log. r_invoke rt log l [HandleObj (Ref h)] = Inr (Ref n))
       \<and> (\<forall>log. r_toprimitive rt log n = Inr (Number (int len)))
       \<and> (\<forall>log i. i < len \<longrightarrow> r_getitem rt log h (Arg (Number (int i))) = Inr (item i))
       \<and> (\<forall>log i. i < len \<longrightarrow> fst (wrap rt E (item i) log) = Inr (ws i)) \<longrightarrow>
      fst (iterate (Suc len) rt E h (OfSequence None) log) = Inr (map ws [0..<len], True)"
  proof
    assume a: "(\<forall>log. r_getitem rt log (builtins E) (Arg (String ''len'')) = Inr (Ref l))
       \<and> (\<forall>log. r_invoke rt log l [HandleObj (Ref h)] = Inr (Ref n))
       \<and> (\<forall>log. r_toprimitive rt log n = Inr (Number (int len)))
       \<and> (\<forall>log i. i < len \<longrightarrow> r_getitem rt log h (Arg (Number (int i))) = Inr (item i))
       \<and> (\<forall>log i. i < len \<longrightarrow> fst (wrap rt E (item i) log) = Inr (ws i))"
    show "fst (iterate (Suc len) rt E h (OfSequence None) log) = Inr (map ws [0..<len], True)"
      by (rule iterate_sequence [where l = l and n = n and item = item and j = 0])
         (use a in simp_all)
  qed
qed (use iterator_kinds [of rt log h] iterator_step [of rt log h d v E]
      iterate_stops [of rt E h it log x log' k]
      sequence_step [of rt log E l h n m log3 c] in simp_all)

theorem iteration_protocol_witness:
  "iterator demo_rt 12 [] = (Inr (OfSequence None), [IsIterator 12, IsSequence 12])
   \<and> iterator demo_rt 13 [] =
       (Inl (TypeError ''object is not iteratable or sequence.''),
        [IsIterator 13, IsSequence 13])
   \<and> fst (iterate 4 demo_rt demo_env 12 (OfSequence None) []) =
       Inr ([Plain (Val (Number 7)), Plain (Val (Number 8)), Plain (Val (Number 9))], True)"
proof -
  have three: "\<And>i::nat. i < 3 \<Longrightarrow> i = 0 \<or> i = 1 \<or> i = 2"
    by arith
  have items: "\<forall>log i. i < (3::nat) \<longrightarrow>
      r_getitem demo_rt log 12 (Arg (Number (int i))) = Inr (Ref (20 + i))"
    using three by (auto simp: demo_rt_def demo_getitem_def)
  have wraps: "\<forall>log i. i < (3::nat) \<longrightarrow>
      fst (wrap demo_rt demo_env (Ref (20 + i)) log) = Inr (Plain (Val (Number (7 + int i))))"
  proof (intro allI impI)
    fix log and i :: nat
    assume "i < 3"
    then have "i = 0 \<or> i = 1 \<or> i = 2" by (rule three)
    then show "fst (wrap demo_rt demo_env (Ref (20 + i)) log) =
        Inr (Plain (Val (Number (7 + int i))))"
      by (auto simp: demo_wrap_int demo_type_def demo_toprimitive_def)
  qed
  have 1: "iterator demo_rt 12 [] = (Inr (OfSequence None), [IsIterator 12, IsSequence 12])"
    using iteration_protocol [where rt = demo_rt and h = 12 and log = "[]"]
    by (simp add: demo_rt_def)
  have 2: "iterator demo_rt 13 [] =
       (Inl (TypeError ''object is not iteratable or sequence.''),
        [IsIterator 13, IsSequence 13])"
    using iteration_protocol [where rt = demo_rt and h = 13 and log = "[]"]
    by (simp add: demo_rt_def)
  have "fst (iterate (Suc 3) demo_rt demo_env 12 (OfSequence None) []) =
      Inr (map (\<lambda>i. Plain (Val (Number (7 + int i)))) [0..<3], True)"
    using iteration_protocol [where rt = demo_rt and E = demo_env and h = 12 and l = 3
        and n = 30 and len = 3 and item = "\<lambda>i. Ref (20 + i)"
        and ws = "\<lambda>i. Plain (Val (Number (7 + int i)))" and log = "[]"] items wraps
    by (simp add: demo_rt_def demo_env_def demo_getitem_def demo_invoke_def
        demo_toprimitive_def)
  then have 3: "fst (iterate 4 demo_rt demo_env 12 (OfSequence None) []) =
       Inr ([Plain (Val (Number 7)), Plain (Val (Number 8)), Plain (Val (Number 9))], True)"
    by (simp add: upt_rec numeral_eq_Suc del: iterate.simps)
  from 1 2 3 show ?thesis by simp
qed

section \<open>Properties of the context manager adapter\<close>

lemma get_member_ok:
  "err \<noteq> Null \<Longrightarrow> err \<noteq> Undefined \<Longrightarrow> \<exists>v. get_member hp err n = Inr v"
  by (cases err) auto

lemma on_exception_once:
  assumes "err \<noteq> Null" "err \<noteq> Undefined"
  shows "\<exists>pt pv ptr. snd (on_exception hp ctx err) = [Exit (ExitHandle pt) (ExitHandle pv) (ExitHandle ptr)]
     \<and> get_member hp err ''ptype'' = Inr pt \<and> get_member hp err ''pvalue'' = Inr pv
     \<and> get_member hp err ''ptrace'' = Inr ptr
     \<and> fst (on_exception hp ctx err) =
         (case c_exit ctx (ExitHandle pt) (ExitHandle pv) (ExitHandle ptr) of
            Inl e \<Rightarrow> Rejected (Thrown e)
          | Inr r \<Rightarrow> if truthy r then Fulfilled else Rejected (Thrown err))"
proof -
  from assms obtain pt pv ptr where g: "get_member hp err ''ptype'' = Inr pt"
    "get_member hp err ''pvalue'' = Inr pv" "get_member hp err ''ptrace'' = Inr ptr"
    using get_member_ok by metis
  then show ?thesis
    by (auto simp: on_exception_def split: sum.splits)
qed

lemma with_scope_exit_once:
  assumes "has_enter ctx" "has_exit ctx"
    and "\<And>f err. fn = Fn f \<Longrightarrow>
           (case c_enter ctx of Inl e \<Rightarrow> Inl e | Inr v \<Rightarrow> f v) = Inl err \<Longrightarrow>
           err \<noteq> Null \<and> err \<noteq> Undefined"
  shows "exit_count (snd (with_scope hp ctx fn)) = 1"
proof (cases fn)
  case (NotFunction v)
  with assms(1,2) show ?thesis
    by (simp add: with_scope_def exit_count_def exit_nulls_def split: sum.splits)
next
  case (Fn f)
  show ?thesis
  proof (cases "case c_enter ctx of Inl e \<Rightarrow> Inl e | Inr v \<Rightarrow> f v")
    case (Inr r)
    with Fn assms(1,2) show ?thesis
      by (simp add: with_scope_def exit_count_def exit_nulls_def split: sum.splits)
  next
    case (Inl err)
    with assms(3) [OF Fn] have "err \<noteq> Null" "err \<noteq> Undefined" by auto
    from on_exception_once [OF this, of hp ctx] Fn Inl assms(1,2) show ?thesis
      by (auto simp: with_scope_def exit_count_def)
  qed
qed

lemma with_scope_not_callable:
  assumes "has_enter ctx" "has_exit ctx"
  shows "snd (with_scope hp ctx (NotFunction v)) = [Exit ExitNull ExitNull ExitNull]
    \<and> (\<forall>r. c_exit ctx ExitNull ExitNull ExitNull = Inr r \<longrightarrow>
          fst (with_scope hp ctx (NotFunction v)) = Throws (TypeError ''the `fn` must be a function.''))"
  using assms by (simp add: with_scope_def exit_nulls_def split: sum.splits)

lemma with_scope_throws:
  assumes "has_enter ctx" "has_exit ctx" "c_enter ctx = Inr v" "f v = Inl err"
    "err \<noteq> Null" "err \<noteq> Undefined"
    "get_member hp err ''ptype'' = Inr pt" "get_member hp err ''pvalue'' = Inr pv"
    "get_member hp err ''ptrace'' = Inr ptr"
    "c_exit ctx (ExitHandle pt) (ExitHandle pv) (ExitHandle ptr) = Inr r"
  shows "with_scope hp ctx (Fn f) =
     (if truthy r then Fulfilled else Rejected (Thrown err),
      [Enter, Exit (ExitHandle pt) (ExitHandle pv) (ExitHandle ptr)])"
  using assms by (simp add: with_scope_def on_exception_def)

text \<open>
  Claim C3, at a callback that throws \<^verbatim>\<open>undefined\<close>: the \<^verbatim>\<open>catch\<close> block reads \<^verbatim>\<open>err.ptype\<close>,
  which throws before \<^verbatim>\<open>__exit__\<close> is called, and the \<^verbatim>\<open>finally\<close> block does not call it
  either, since the exception flag is set.  \<^verbatim>\<open>__enter__\<close> was called, \<^verbatim>\<open>__exit__\<close> never is,
  and the promise is rejected with the type error.  (On every other path \<^verbatim>\<open>__exit__\<close> is
  called once: \<open>with_scope_exit_once\<close>.)
\<close>

theorem with_scope_throw_undefined:
  "with_scope [] demo_manager (Fn (\<lambda>v. Inl Undefined)) =
     (Rejected (TypeError ''Cannot read properties of undefined''), [Enter])
   \<and> exit_count (snd (with_scope [] demo_manager (Fn (\<lambda>v. Inl Undefined)))) = 0"
  by (simp add: with_scope_def on_exception_def demo_manager_def exit_count_def)

section \<open>Properties of construction\<close>

lemma declared_members_list:
  "declared_members proto = [(n, v). (StrKey n, v) \<leftarrow> proto, n \<noteq> ''constructor'']"
  by (induction proto rule: declared_members.induct) simp_all

lemma register_returns:
  "register rt h ms log = (Inr u, log') \<Longrightarrow>
     log' = log @ map (\<lambda>(n, v). SetAttr h (Arg (String n)) (Arg v)) ms"
proof (induction ms arbitrary: log)
  case Nil
  then show ?case by (simp add: ret_def)
next
  case (Cons m ms)
  obtain n v where m: "m = (n, v)" by (cases m)
  from Cons.prems obtain c mid where
    a: "py_setattr rt h (Arg (String n)) (Arg v) log = (Inr c, mid)"
    and b: "register rt h ms mid = (Inr u, log')"
    by (auto simp: m bnd_eq_Inr)
  from a have "mid = log @ [SetAttr h (Arg (String n)) (Arg v)]"
    by (simp add: py_setattr_def native_eq_Inr)
  with Cons.IH [OF b] show ?case
    by (simp add: m)
qed

lemma register_raises:
  "r_setattr rt log h (Arg (String n)) (Arg v) = Inl e \<Longrightarrow>
     register rt h ((n, v) # ms) log =
       (Inl (Thrown e), log @ [SetAttr h (Arg (String n)) (Arg v)])"
  by (simp add: bnd_def py_setattr_def native_def)

lemma apply_trap_starts:
  assumes "apply_trap rt E h args log = (r, log')"
  shows "\<exists>t. log' = log @ Invoke h args # t"
proof (cases "r_invoke rt log h args")
  case (Inl e)
  with assms show ?thesis
    by (auto simp: apply_trap_def bnd_def py_invoke_def native_def)
next
  case (Inr y)
  with assms have "wrap rt E y (log @ [Invoke h args]) = (r, log')"
    by (simp add: apply_trap_def bnd_def py_invoke_def native_def)
  from wrap_extends [OF this] show ?thesis by auto
qed

lemma demo_replies:
  "r_invoke demo_rt log 14 as = Inr (Ref 15)"
  "r_invoke demo_rt log 16 as = Inr (Ref 11)"
  "r_invoke demo_rt log 18 as = Inr (Ref 10)"
  "r_hasattr demo_rt log 15 ''__init__'' = Inr True"
  "r_getattr demo_rt log 15 ''__init__'' = Inr (Ref 16)"
  "r_setattr demo_rt log h k v = Inr 0"
  by (simp_all add: demo_rt_def demo_invoke_def demo_getattr_def)

lemma demo_get_init:
  "proxy_get demo_rt demo_env 15 2 (StrKey ''__init__'') log =
     (Inr (Foreign (Proxy 16 1)),
      log @ [HasAttr 15 ''__init__'', GetAttr 15 ''__init__''] @ type_calls 16 @ [IsCallable 16])"
proof -
  have o: "own_or_inherited demo_env 15 2 (StrKey ''__init__'') = None"
    by (simp add: own_or_inherited_def installed_at_def demo_env_def)
  moreover have "\<not> is_index ''__init__''"
    by (simp add: is_index_def is_digit_def)
  ultimately have "get_trap demo_rt demo_env 15 2 (StrKey ''__init__'') log =
     (Inr (Foreign (Proxy 16 1)),
      log @ [HasAttr 15 ''__init__'', GetAttr 15 ''__init__''] @ type_calls 16 @ [IsCallable 16])"
    by (simp add: get_trap_def bnd_def py_hasattr_def py_getattr_def native_def
        demo_replies demo_wrap_16 ret_def)
  then show ?thesis
    by (simp add: proxy_get_unfrozen not_installed_not_frozen [OF o])
qed

lemma demo_apply_init:
  "apply_trap demo_rt demo_env 16 [] log =
     (Inr (Plain (Val Null)), log @ [Invoke 16 []] @ type_calls 11)"
  by (simp add: apply_trap_def bnd_def py_invoke_def native_def demo_replies demo_wrap_none)

lemma demo_construct:
  "construct_trap demo_rt demo_env (\<lambda>f h. ret ()) 14 [Arg (Number 1)] demo_class [] =
     (Inr (Proxy 15 2),
      [Invoke 14 [Arg (Number 1)]] @ type_calls 15 @ [IsCallable 15]
      @ [HasAttr 15 ''__init__'', GetAttr 15 ''__init__''] @ type_calls 16 @ [IsCallable 16]
      @ [Invoke 16 []] @ type_calls 11
      @ [SetAttr 15 (Arg (String ''area'')) (Arg (Function 4)),
         SetAttr 15 (Arg (String ''perimeter'')) (Arg (Function 6))])"
proof -
  have c: "t_callable (produce demo_env 1 16)"
    by (simp add: demo_env_def)
  have "call_member demo_rt demo_env (\<lambda>f h. ret ()) (Foreign (Proxy 16 1)) log =
      (Inr (), log @ [Invoke 16 []] @ type_calls 11)" for log
    using c by (simp add: call_member_def bnd_def ret_def demo_apply_init)
  then show ?thesis
    by (simp add: construct_trap_def bnd_def py_invoke_def native_def demo_wrap_15
        demo_get_init ret_def demo_class_def py_setattr_def demo_replies)
qed

text \<open>
  Claim C8, as stated, fails, in two ways.  A method that the host class declares under a
  symbol is an own method of its prototype, and no attribute-set copies it (nor the
  \<^verbatim>\<open>constructor\<close>), while the methods declared under a string name are copied.  And not
  every use as a constructor reaches the initializer: when the handle's call gives a value
  that \<^verbatim>\<open>wrap\<close> turns into a primitive, the construction throws after the wrapping, with
  no \<^verbatim>\<open>__init__\<close> read or invoked and nothing copied.
\<close>

theorem construct_symbol_method_counterexample:
  "fst (construct_trap demo_rt demo_env (\<lambda>f h. ret ()) 14 [Arg (Number 1)] demo_class [])
     = Inr (Proxy 15 2)
   \<and> map_of demo_class (SymKey ''Symbol.iterator'') = Some (Function 5)
   \<and> copied (snd (construct_trap demo_rt demo_env (\<lambda>f h. ret ()) 14 [Arg (Number 1)]
                     demo_class [])) 15 (Function 4)
   \<and> \<not> copied (snd (construct_trap demo_rt demo_env (\<lambda>f h. ret ()) 14 [Arg (Number 1)]
                     demo_class [])) 15 (Function 5)
   \<and> map_of demo_class (StrKey ''constructor'') = Some (Function 3)
   \<and> \<not> copied (snd (construct_trap demo_rt demo_env (\<lambda>f h. ret ()) 14 [Arg (Number 1)]
                     demo_class [])) 15 (Function 3)
   \<and> construct_trap demo_rt demo_env (\<lambda>f h. ret ()) 18 [Arg (Number 1)] demo_class [] =
       (Inl (TypeError ''obj.__init__ is not a function''),
        [Invoke 18 [Arg (Number 1)]] @ type_calls 10 @ [ToPrimitive 10])"
proof -
  have w: "wrap demo_rt demo_env (Ref 10) log =
      (Inr (Plain (Val (Number 42))), log @ type_calls 10 @ [ToPrimitive 10])" for log
    by (rule demo_wrap_int) (simp_all add: demo_type_def demo_toprimitive_def)
  have "construct_trap demo_rt demo_env (\<lambda>f h. ret ()) 18 [Arg (Number 1)] demo_class [] =
       (Inl (TypeError ''obj.__init__ is not a function''),
        [Invoke 18 [Arg (Number 1)]] @ type_calls 10 @ [ToPrimitive 10])"
    by (simp add: construct_trap_def bnd_def py_invoke_def native_def demo_replies w throw_def)
  moreover have "map_of demo_class (SymKey ''Symbol.iterator'') = Some (Function 5)"
    by (simp add: demo_class_def)
  moreover have "map_of demo_class (StrKey ''constructor'') = Some (Function 3)"
    by (simp add: demo_class_def)
  ultimately show ?thesis
    by (simp add: demo_construct copied_def type_calls_def)
qed

text \<open>
  Claim C8, amended.  For every use of a proxy as a constructor that returns: the handle
  was invoked with the constructor's arguments and the result wrapped, which gave a proxy,
  the object returned; the \<^verbatim>\<open>__init__\<close> member of that proxy was read as every property
  of a proxy is, and called with no argument, so that when it is a foreign object its
  handle is invoked on an empty argument list (the constructor's arguments are not passed
  to it); and the calls end with one attribute-set on the new instance for each own
  property of the class's prototype whose key is a string other than \<^verbatim>\<open>constructor\<close>, in
  the order of the prototype's properties, and nothing else.
\<close>

theorem construct_steps:
  assumes "construct_trap rt E run h args proto log = (Inr obj, log')"
  shows "\<exists>r h' fn log1 init log2 log3.
      r_invoke rt log h args = Inr r
    \<and> wrap rt E r (log @ [Invoke h args]) = (Inr (Proxy h' fn), log1)
    \<and> obj = Proxy h' fn
    \<and> proxy_get rt E h' fn (StrKey ''__init__'') log1 = (Inr init, log2)
    \<and> call_member rt E run init log2 = (Inr (), log3)
    \<and> (\<forall>hi fi. init = Foreign (Proxy hi fi) \<longrightarrow> (\<exists>t. log3 = log2 @ Invoke hi [] # t))
    \<and> log' = log3 @ map (\<lambda>(n, v). SetAttr h' (Arg (String n)) (Arg v))
                      [(n, v). (StrKey n, v) \<leftarrow> proto, n \<noteq> ''constructor'']"
proof -
  from assms obtain r mid where
    inv: "py_invoke rt h args log = (Inr r, mid)"
    and rest1: "bnd (wrap rt E r) (\<lambda>obj.
     case obj of
       Plain v \<Rightarrow> throw (TypeError ''obj.__init__ is not a function'')
     | Proxy h' fn \<Rightarrow>
         bnd (proxy_get rt E h' fn (StrKey ''__init__'')) (\<lambda>init.
         bnd (call_member rt E run init) (\<lambda>u.
         bnd (register rt h' (declared_members proto)) (\<lambda>u.
         ret obj)))) mid = (Inr obj, log')"
    unfolding construct_trap_def bnd_eq_Inr by blast
  from inv have r: "r_invoke rt log h args = Inr r" and mid: "mid = log @ [Invoke h args]"
    by (simp_all add: py_invoke_def native_eq_Inr)
  from rest1 obtain w log1 where
    w: "wrap rt E r mid = (Inr w, log1)"
    and rest2: "(case w of
       Plain v \<Rightarrow> throw (TypeError ''obj.__init__ is not a function'')
     | Proxy h' fn \<Rightarrow>
         bnd (proxy_get rt E h' fn (StrKey ''__init__'')) (\<lambda>init.
         bnd (call_member rt E run init) (\<lambda>u.
         bnd (register rt h' (declared_members proto)) (\<lambda>u.
         ret w)))) log1 = (Inr obj, log')"
    unfolding bnd_eq_Inr by blast
  from rest2 obtain h' fn where wp: "w = Proxy h' fn"
    by (cases w) (auto simp: throw_def)
  from rest2 wp obtain init log2 u log3 u' log4 where
    g: "proxy_get rt E h' fn (StrKey ''__init__'') log1 = (Inr init, log2)"
    and c: "call_member rt E run init log2 = (Inr u, log3)"
    and reg: "register rt h' (declared_members proto) log3 = (Inr u', log4)"
    and fin: "ret w log4 = (Inr obj, log')"
    by (auto simp: bnd_eq_Inr)
  from fin have obj: "obj = w" and l4: "log4 = log'"
    by (simp_all add: ret_def)
  have starts: "\<exists>t. log3 = log2 @ Invoke hi [] # t" if "init = Foreign (Proxy hi fi)" for hi fi
  proof -
    from c that obtain x where "apply_trap rt E hi [] log2 = (Inr x, log3)"
      by (auto simp: call_member_def bnd_eq_Inr ret_def throw_def split: if_splits)
    then show ?thesis by (rule apply_trap_starts)
  qed
  from register_returns [OF reg] have
    "log' = log3 @ map (\<lambda>(n, v). SetAttr h' (Arg (String n)) (Arg v))
                      [(n, v). (StrKey n, v) \<leftarrow> proto, n \<noteq> ''constructor'']"
    by (simp only: l4 declared_members_list)
  moreover from c have "call_member rt E run init log2 = (Inr (), log3)"
    by simp
  moreover from w mid wp have "wrap rt E r (log @ [Invoke h args]) = (Inr (Proxy h' fn), log1)"
    by simp
  moreover from obj wp have "obj = Proxy h' fn"
    by simp
  ultimately show ?thesis
    using r g starts by blast
qed

theorem construct_steps_witness:
  "\<exists>log1 log2 log3 t.
      r_invoke demo_rt [] 14 [Arg (Number 1)] = Inr (Ref 15)
    \<and> wrap demo_rt demo_env (Ref 15) ([] @ [Invoke 14 [Arg (Number 1)]]) = (Inr (Proxy 15 2), log1)
    \<and> proxy_get demo_rt demo_env 15 2 (StrKey ''__init__'') log1
          = (Inr (Foreign (Proxy 16 1)), log2)
    \<and> call_member demo_rt demo_env (\<lambda>f h. ret ()) (Foreign (Proxy 16 1)) log2 = (Inr (), log3)
    \<and> log3 = log2 @ Invoke 16 [] # t
    \<and> snd (construct_trap demo_rt demo_env (\<lambda>f h. ret ()) 14 [Arg (Number 1)] demo_class [])
        = log3 @ [SetAttr 15 (Arg (String ''area'')) (Arg (Function 4)),
                  SetAttr 15 (Arg (String ''perimeter'')) (Arg (Function 6))]"
proof -
  have ms: "[(n, v). (StrKey n, v) \<leftarrow> demo_class, n \<noteq> ''constructor''] =
      [(''area'', Function 4), (''perimeter'', Function 6)]"
    by (simp add: demo_class_def)
  obtain r h' fn log1 init log2 log3 where
    r: "r_invoke demo_rt [] 14 [Arg (Number 1)] = Inr r"
    and w: "wrap demo_rt demo_env r ([] @ [Invoke 14 [Arg (Number 1)]]) = (Inr (Proxy h' fn), log1)"
    and o: "Proxy 15 2 = Proxy h' fn"
    and g: "proxy_get demo_rt demo_env h' fn (StrKey ''__init__'') log1 = (Inr init, log2)"
    and c: "call_member demo_rt demo_env (\<lambda>f h. ret ()) init log2 = (Inr (), log3)"
    and i: "\<forall>hi fi. init = Foreign (Proxy hi fi) \<longrightarrow> (\<exists>t. log3 = log2 @ Invoke hi [] # t)"
    and l: "[Invoke 14 [Arg (Number 1)]] @ type_calls 15 @ [IsCallable 15]
      @ [HasAttr 15 ''__init__'', GetAttr 15 ''__init__''] @ type_calls 16 @ [IsCallable 16]
      @ [Invoke 16 []] @ type_calls 11
      @ [SetAttr 15 (Arg (String ''area'')) (Arg (Function 4)),
         SetAttr 15 (Arg (String ''perimeter'')) (Arg (Function 6))]
      = log3 @ map (\<lambda>(n, v). SetAttr h' (Arg (String n)) (Arg v))
                 [(n, v). (StrKey n, v) \<leftarrow> demo_class, n \<noteq> ''constructor'']"
    using construct_steps [OF demo_construct] by blast
  from r have r': "r = Ref 15"
    by (simp add: demo_replies)
  from o have h: "h' = 15" "fn = 2"
    by simp_all
  from g have init: "init = Foreign (Proxy 16 1)"
    by (simp add: h demo_get_init)
  from i init obtain t where t: "log3 = log2 @ Invoke 16 [] # t"
    by blast
  have "snd (construct_trap demo_rt demo_env (\<lambda>f h. ret ()) 14 [Arg (Number 1)] demo_class [])
        = log3 @ [SetAttr 15 (Arg (String ''area'')) (Arg (Function 4)),
                  SetAttr 15 (Arg (String ''perimeter'')) (Arg (Function 6))]"
    using l by (simp only: demo_construct snd_conv ms h) simp
  with r w g c t show ?thesis
    unfolding r' h init by blast
qed

section \<open>Properties of multi-line evaluation\<close>



















end
